theory Spec2Isabelle
  imports Main
begin

section \<open>Record upload tasks of the workflow engine (tasks/upload.py)\<close>

text \<open>
  The development embeds \<^verbatim>\<open>inspirehep/modules/workflows/tasks/upload.py\<close>: the commit
  step \<^verbatim>\<open>store_record\<close> with its two storage strategies, the remote call
  \<^verbatim>\<open>send_record_to_hep\<close> with the translation of HTTP errors, the snapshot step
  \<^verbatim>\<open>store_root\<close> and the staleness check \<^verbatim>\<open>_is_stale_data\<close>.
  Python objects are mutated in place and keep their mutations when an exception
  is raised later, so every task is a function from the state before the call to the
  pair of its outcome (\<open>Inl\<close> the exception raised, \<open>Inr\<close> the value returned) and the
  state after the call.
\<close>

subsection \<open>Python values\<close>

text \<open>
  The values held by \<^verbatim>\<open>obj.data\<close>, \<^verbatim>\<open>obj.extra_data\<close> and the decoded response
  bodies are JSON values; numbers are restricted to integers. A dictionary is an
  association list in insertion order.
\<close>

datatype pyval =
    PNone
  | PBool bool
  | PInt int
  | PStr string
  | PList "pyval list"
  | PDict "(string \<times> pyval) list"

type_synonym pydict = "(string \<times> pyval) list"

text \<open>The exceptions that the tasks raise or let through.
  \<open>ConflictError\<close> is the exception class that the specification names for a rejected
  precondition; no function of the module constructs it.\<close>

datatype error =
    BadGatewayError
  | WorkflowsError int pyval
  | ValueError string
  | KeyError string
  | TypeError
  | UnicodeEncodeError
  | NoResultFound
  | ConflictError

text \<open>Truth value testing (\<^verbatim>\<open>if x:\<close>, \<^verbatim>\<open>not x\<close>).\<close>

fun truthy :: "pyval \<Rightarrow> bool" where
  "truthy PNone = False"
| "truthy (PBool b) = b"
| "truthy (PInt i) = (i \<noteq> 0)"
| "truthy (PStr s) = (s \<noteq> [])"
| "truthy (PList xs) = (xs \<noteq> [])"
| "truthy (PDict d) = (d \<noteq> [])"

text \<open>\<^verbatim>\<open>d.get(k)\<close>: the value, or \<^verbatim>\<open>None\<close> when the key is absent.\<close>

definition py_get :: "pydict \<Rightarrow> string \<Rightarrow> pyval" where
  "py_get d k = (case map_of d k of None \<Rightarrow> PNone | Some v \<Rightarrow> v)"

text \<open>\<^verbatim>\<open>d[k]\<close> on a dictionary: the value, or \<^verbatim>\<open>KeyError\<close> when the key is absent.\<close>

definition py_getitem :: "pydict \<Rightarrow> string \<Rightarrow> error + pyval" where
  "py_getitem d k = (case map_of d k of None \<Rightarrow> Inl (KeyError k) | Some v \<Rightarrow> Inr v)"

text \<open>\<^verbatim>\<open>v[k]\<close> on an arbitrary value with a string key: only a dictionary can be
  subscripted by a string.\<close>

fun py_subscript :: "pyval \<Rightarrow> string \<Rightarrow> error + pyval" where
  "py_subscript (PDict d) k = py_getitem d k"
| "py_subscript v k = Inl TypeError"

text \<open>\<^verbatim>\<open>d[k] = v\<close>: an existing key keeps its position, a new key is appended.\<close>

primrec py_setitem :: "pydict \<Rightarrow> string \<Rightarrow> pyval \<Rightarrow> pydict" where
  "py_setitem [] k v = [(k, v)]"
| "py_setitem (p # ps) k v = (if fst p = k then (k, v) # ps else p # py_setitem ps k v)"

text \<open>\<^verbatim>\<open>k in d\<close>.\<close>

definition py_contains :: "pydict \<Rightarrow> string \<Rightarrow> bool" where
  "py_contains d k = (map_of d k \<noteq> None)"

text \<open>\<^verbatim>\<open>x - 1\<close>: defined on integers and booleans (\<^verbatim>\<open>True\<close> is 1), a
  \<^verbatim>\<open>TypeError\<close> elsewhere.\<close>

fun py_sub1 :: "pyval \<Rightarrow> error + int" where
  "py_sub1 (PInt i) = Inr (i - 1)"
| "py_sub1 (PBool b) = Inr ((if b then 1 else 0) - 1)"
| "py_sub1 v = Inl TypeError"

text \<open>\<^verbatim>\<open>n != x\<close> for an integer \<^verbatim>\<open>n\<close>: numeric comparison with integers and
  booleans, and unequal to every value of another type.\<close>

fun py_int_ne :: "int \<Rightarrow> pyval \<Rightarrow> bool" where
  "py_int_ne n (PInt i) = (n \<noteq> i)"
| "py_int_ne n (PBool b) = (n \<noteq> (if b then 1 else 0))"
| "py_int_ne n v = True"

text \<open>Whether \<^verbatim>\<open>'%d' % x\<close> accepts \<^verbatim>\<open>x\<close> (a number is required).\<close>

fun py_is_number :: "pyval \<Rightarrow> bool" where
  "py_is_number (PInt i) = True"
| "py_is_number (PBool b) = True"
| "py_is_number v = False"

text \<open>Decimal rendering of an integer, as \<^verbatim>\<open>'{0}'.format(n)\<close> gives it.\<close>

definition digit_char :: "nat \<Rightarrow> char" where
  "digit_char d = ''0123456789'' ! d"

function str_nat :: "nat \<Rightarrow> string" where
  "str_nat n = (if n < 10 then [digit_char n] else str_nat (n div 10) @ [digit_char (n mod 10)])"
  by pat_completeness auto
termination
  by (relation "measure id") auto

declare str_nat.simps [simp del]

definition str_int :: "int \<Rightarrow> string" where
  "str_int i = (if i < 0 then CHR ''-'' # str_nat (nat (- i)) else str_nat (nat i))"

text \<open>\<^verbatim>\<open>s.lower()\<close> on a byte string: the ASCII capitals are mapped to small letters.\<close>

definition lower_char :: "char \<Rightarrow> char" where
  "lower_char c =
     (let n = (of_char c :: nat) in if 65 \<le> n \<and> n \<le> 90 then char_of (n + 32) else c)"

definition lower :: "string \<Rightarrow> string" where
  "lower s = map lower_char s"

text \<open>
  The module runs under Python 2 without \<^verbatim>\<open>unicode_literals\<close>, so its format strings
  are byte strings. \<^verbatim>\<open>'...{message}'.format(message=x)\<close> renders a dictionary, a list,
  a number, a boolean or \<^verbatim>\<open>None\<close> through \<^verbatim>\<open>str\<close>, which always succeeds; a text
  \<open>x\<close> (the strings of a decoded body and \<^verbatim>\<open>response.text\<close> are unicode objects) is
  encoded with the ASCII codec, which raises \<^verbatim>\<open>UnicodeEncodeError\<close> when the text has
  a character outside ASCII. A string of the model holds the UTF-8 bytes of the text, so
  such a character shows as a byte of 128 or more.
\<close>

definition is_ascii :: "string \<Rightarrow> bool" where
  "is_ascii s = list_all (\<lambda>c. (of_char c :: nat) < 128) s"

fun format_accepts :: "pyval \<Rightarrow> bool" where
  "format_accepts (PStr s) = is_ascii s"
| "format_accepts v = True"

subsection \<open>The remote record API\<close>

text \<open>
  A request as \<^verbatim>\<open>put_record_to_hep(pid_type, control_number, data=..., headers=...)\<close>
  and \<^verbatim>\<open>post_record_to_hep(pid_type, data=...)\<close> issue it.
\<close>

datatype http_method = PUT | POST

record request =
  http_method :: http_method
  pid_type :: string
  control_number :: pyval
  payload :: pydict
  headers :: "(string \<times> string) list"

text \<open>The response object carried by \<^verbatim>\<open>requests.exceptions.HTTPError\<close>:
  \<open>json_body\<close> is \<open>None\<close> when \<^verbatim>\<open>response.json()\<close> raises
  \<^verbatim>\<open>JSONDecodeError\<close>.\<close>

datatype response = Response (status_code: int) (json_body: "pyval option") (text_body: string)

text \<open>What a call of the remote API gives back: the decoded body of a successful
  response, or an \<^verbatim>\<open>HTTPError\<close> with the response.\<close>

datatype http_result = Ok pyval | HTTPError response

subsection \<open>The local stores\<close>

text \<open>
  Modelled from the spec: the class \<^verbatim>\<open>InspireRecord\<close>
  (\<^verbatim>\<open>inspirehep/modules/records/api.py\<close>) is not among the sources. A canonical record
  carries its JSON content and a version that every committed write increments; the
  store maps the UUID of a record to the record.
\<close>

record InspireRecord =
  content :: pydict
  version_id :: int

text \<open>
  Modelled from the spec: the table \<^verbatim>\<open>WorkflowsRecordSources\<close>
  (\<^verbatim>\<open>inspirehep/modules/workflows/models.py\<close>) is not among the sources. A row holds
  the as-submitted JSON of one source for one canonical record; the key of a row is
  the pair of \<open>record_uuid\<close> and \<open>source\<close>.
\<close>

record WorkflowsRecordSources =
  source :: string
  record_uuid :: pyval
  json :: pyval

subsection \<open>Configuration, collaborators and state\<close>

text \<open>
  What a task reads and never writes: the two feature flags of
  \<^verbatim>\<open>current_app.config\<close>, \<^verbatim>\<open>eng.workflow_definition.data_type\<close>, and the
  collaborators whose code is not among the sources, taken as parameters:
  \<^item> \<open>hep_api n r\<close> is the answer of the remote service to request \<open>r\<close> when \<open>n\<close>
    requests were issued before it;
  \<^item> \<open>InspireRecord_create d\<close> is the UUID and the content of the record that
    \<^verbatim>\<open>InspireRecord.create(d, id_=None, skip_files=True)\<close> creates;
  \<^item> \<open>get_source_for_root\<close> is the function of that name of
    \<^verbatim>\<open>inspirehep/modules/workflows/utils.py\<close>;
  \<^item> \<open>LiteratureReader_source r\<close> is \<^verbatim>\<open>LiteratureReader(r).source\<close>.
\<close>

record env =
  FEATURE_FLAG_ENABLE_REST_RECORD_MANAGEMENT :: bool
  FEATURE_FLAG_ENABLE_MERGER :: bool
  data_type :: string
  hep_api :: "nat \<Rightarrow> request \<Rightarrow> http_result"
  InspireRecord_create :: "pydict \<Rightarrow> string \<times> pydict"
  get_source_for_root :: "string \<Rightarrow> string"
  LiteratureReader_source :: "pyval \<Rightarrow> string"

text \<open>
  What a task reads and writes: the workflow object (\<open>data\<close>, \<open>extra_data\<close>, the
  messages of \<^verbatim>\<open>obj.log.info\<close>, the state last persisted by \<^verbatim>\<open>obj.save()\<close>), the
  local record store, the requests issued to the remote service so far, the nominal
  delays (before jitter) that the retry decorator has slept, and the snapshot table.
\<close>

record world =
  data :: pydict
  extra_data :: pydict
  log_info :: "string list"
  saved :: "(pydict \<times> pydict) option"
  records :: "(string \<times> InspireRecord) list"
  requests :: "request list"
  sleeps :: "nat list"
  record_sources :: "WorkflowsRecordSources list"

text \<open>\<^verbatim>\<open>obj.save()\<close>.\<close>

definition obj_save :: "world \<Rightarrow> world" where
  "obj_save w = w\<lparr>saved := Some (data w, extra_data w)\<rparr>"

text \<open>Modelled from the spec: \<^verbatim>\<open>InspireRecord.get_record(uuid)\<close> loads the canonical
  record of that UUID and raises when there is none.\<close>

fun get_record :: "(string \<times> InspireRecord) list \<Rightarrow> pyval \<Rightarrow> error + (string \<times> InspireRecord)" where
  "get_record rs (PStr u) = (case map_of rs u of None \<Rightarrow> Inl NoResultFound | Some r \<Rightarrow> Inr (u, r))"
| "get_record rs v = Inl NoResultFound"

text \<open>Modelled from the spec: \<^verbatim>\<open>record.commit()\<close> writes the record to the store under
  its UUID and increments its version.\<close>

primrec put_row :: "(string \<times> InspireRecord) list \<Rightarrow> string \<Rightarrow> InspireRecord \<Rightarrow> (string \<times> InspireRecord) list" where
  "put_row [] u r = [(u, r)]"
| "put_row (p # ps) u r = (if fst p = u then (u, r) # ps else p # put_row ps u r)"

definition record_commit :: "string \<Rightarrow> InspireRecord \<Rightarrow> world \<Rightarrow> world" where
  "record_commit u r w = w\<lparr>records := put_row (records w) u (r\<lparr>version_id := version_id r + 1\<rparr>)\<rparr>"

subsection \<open>Translation of HTTP errors\<close>

text \<open>
  \<^verbatim>\<open>create_error(response)\<close> always raises; the model returns the exception. For a
  status other than 502 the message \<open>error_msg\<close> is the decoded body, or the raw text when
  the body does not decode; formatting it into the message of the \<^verbatim>\<open>WorkflowsError\<close>
  raises \<^verbatim>\<open>UnicodeEncodeError\<close> when it is a text with a character outside ASCII.
  Otherwise the \<^verbatim>\<open>WorkflowsError\<close> is raised; its message is built from the status code
  and \<open>error_msg\<close>, and the exception of the model carries the two.
\<close>

definition create_error :: "response \<Rightarrow> error" where
  "create_error response =
     (if status_code response = 502 then BadGatewayError
      else
        (let error_msg = (case json_body response of Some m \<Rightarrow> m
                          | None \<Rightarrow> PStr (text_body response))
         in if format_accepts error_msg
            then WorkflowsError (status_code response) error_msg
            else UnicodeEncodeError))"

subsection \<open>Sending a record to the remote service\<close>

text \<open>The call of \<^verbatim>\<open>put_record_to_hep\<close> or \<^verbatim>\<open>post_record_to_hep\<close> inside the
  \<^verbatim>\<open>try\<close> block, with the \<^verbatim>\<open>except HTTPError\<close> clause that re-raises through
  \<open>create_error\<close>. The request is recorded whatever the answer.\<close>

definition call_hep :: "env \<Rightarrow> request \<Rightarrow> world \<Rightarrow> (error + pyval) \<times> world" where
  "call_hep env r w =
     (case hep_api env (length (requests w)) r of
        Ok body \<Rightarrow> (Inr body, w\<lparr>requests := requests w @ [r]\<rparr>)
      | HTTPError resp \<Rightarrow> (Inl (create_error resp), w\<lparr>requests := requests w @ [r]\<rparr>))"

text \<open>
  \<^verbatim>\<open>send_record_to_hep\<close> in three parts, in the order of the source: the arguments of
  the call (\<open>build_request\<close>: a replace when \<open>control_number\<close> is truthy, with the
  header dictionary built from \<^verbatim>\<open>obj.extra_data['head_version_id']\<close>; a create
  otherwise), the call itself (\<open>call_hep\<close>), and the assignments after a successful
  call (\<open>stamp_response\<close>). An exception raised while the arguments are built is not an
  \<^verbatim>\<open>HTTPError\<close> and propagates unchanged, before any request.
\<close>

definition if_match_headers :: "pyval \<Rightarrow> error + (string \<times> string) list" where
  "if_match_headers head_version_id =
     (if truthy head_version_id then
        (case py_sub1 head_version_id of
           Inl e \<Rightarrow> Inl e
         | Inr n \<Rightarrow> Inr [(''If-Match'', ''\"'' @ str_int n @ ''\"'')])
      else Inr [])"

definition build_request :: "string \<Rightarrow> pyval \<Rightarrow> world \<Rightarrow> error + request" where
  "build_request pid_type' control_number' w =
     (if truthy control_number' then
        (case py_getitem (extra_data w) ''head_version_id'' of
           Inl e \<Rightarrow> Inl e
         | Inr head_version_id \<Rightarrow>
             (case if_match_headers head_version_id of
                Inl e \<Rightarrow> Inl e
              | Inr headers' \<Rightarrow>
                  Inr \<lparr>http_method = PUT, pid_type = pid_type', control_number = control_number',
                       payload = data w, headers = headers'\<rparr>))
      else
        Inr \<lparr>http_method = POST, pid_type = pid_type', control_number = PNone,
             payload = data w, headers = []\<rparr>)"

text \<open>\<^verbatim>\<open>response['metadata']['control_number']\<close>.\<close>

definition response_control_number :: "pyval \<Rightarrow> error + pyval" where
  "response_control_number response =
     (case py_subscript response ''metadata'' of
        Inl e \<Rightarrow> Inl e
      | Inr metadata \<Rightarrow> py_subscript metadata ''control_number'')"

definition stamp_response :: "pyval \<Rightarrow> pyval \<Rightarrow> world \<Rightarrow> (error + unit) \<times> world" where
  "stamp_response control_number' response w1 =
     (case response_control_number response of
        Inl e \<Rightarrow> (Inl e, w1)
      | Inr cn \<Rightarrow>
          (let w2 = w1\<lparr>data := py_setitem (data w1) ''control_number'' cn\<rparr>;
               w3 = w2\<lparr>extra_data := py_setitem (extra_data w2) ''recid'' cn\<rparr>
           in if \<not> truthy control_number' then
                (case py_subscript response ''uuid'' of
                   Inl e \<Rightarrow> (Inl e, w3)
                 | Inr uuid \<Rightarrow>
                     (Inr (), obj_save (w3\<lparr>extra_data := py_setitem (extra_data w3) ''head_uuid'' uuid\<rparr>)))
              else (Inr (), obj_save w3)))"

definition send_record_to_hep :: "env \<Rightarrow> string \<Rightarrow> pyval \<Rightarrow> world \<Rightarrow> (error + unit) \<times> world" where
  "send_record_to_hep env pid_type' control_number' w =
     (case build_request pid_type' control_number' w of
        Inl e \<Rightarrow> (Inl e, w)
      | Inr r \<Rightarrow>
          (case call_hep env r w of
             (Inl e, w1) \<Rightarrow> (Inl e, w1)
           | (Inr response, w1) \<Rightarrow> stamp_response control_number' response w1))"

text \<open>Whether an answer of the remote service is an HTTP error with status 502.\<close>

fun is_502 :: "http_result \<Rightarrow> bool" where
  "is_502 (HTTPError resp) = (status_code resp = 502)"
| "is_502 (Ok body) = False"

subsection \<open>Retrying on a bad gateway\<close>

text \<open>
  The decorator \<^verbatim>\<open>backoff.on_exception(backoff.expo, (BadGatewayError, ), base=4,
  max_tries=5)\<close> belongs to a library that is not among the sources; the model follows
  its documented loop. \<open>expo\<close> is the wait generator: its \<open>n\<close>-th value is
  \<open>factor * base ^ n\<close>. The decorated function is called; an exception of a listed
  class is raised again when this was attempt number \<open>max_tries\<close>, and otherwise the
  loop sleeps for the next value of the generator (the model records the value before
  jitter) and calls the function again; any other exception is raised at once.
  \<open>tries\<close> counts the attempts already made. The only use has \<open>max_tries = 5\<close>; for
  \<open>max_tries = 0\<close> the library never gives up, and the model gives up at once.
\<close>

definition expo :: "nat \<Rightarrow> nat \<Rightarrow> nat \<Rightarrow> nat" where
  "expo base factor n = factor * base ^ n"

function on_exception ::
  "(nat \<Rightarrow> nat) \<Rightarrow> (error \<Rightarrow> bool) \<Rightarrow> nat \<Rightarrow> (world \<Rightarrow> (error + 'a) \<times> world) \<Rightarrow> nat \<Rightarrow> world
     \<Rightarrow> (error + 'a) \<times> world" where
  "on_exception wait_gen listed max_tries target tries w =
     (case target w of
        (Inr v, w') \<Rightarrow> (Inr v, w')
      | (Inl e, w') \<Rightarrow>
          if listed e \<and> Suc tries < max_tries
          then on_exception wait_gen listed max_tries target (Suc tries)
                 (w'\<lparr>sleeps := sleeps w' @ [wait_gen tries]\<rparr>)
          else (Inl e, w'))"
  by pat_completeness auto
termination
  by (relation "measure (\<lambda>(wait_gen, listed, max_tries, target, tries, w). max_tries - tries)") auto

declare on_exception.simps [simp del]

subsection \<open>The commit step\<close>

definition skip_update_message :: string where
  "skip_update_message =
     ''skipping update record, feature flag ``FEATURE_FLAG_ENABLE_MERGER`` is disabled.''"

text \<open>The body of \<^verbatim>\<open>store_record_inspirehep_api\<close>, without its decorators.\<close>

definition store_record_inspirehep_api_body ::
  "env \<Rightarrow> pyval \<Rightarrow> bool \<Rightarrow> world \<Rightarrow> (error + unit) \<times> world" where
  "store_record_inspirehep_api_body env is_update is_authors w =
     (let pid_type' = (if is_authors then ''aut'' else ''lit'') in
      if truthy is_update \<and> \<not> is_authors \<and> \<not> FEATURE_FLAG_ENABLE_MERGER env then
        (Inr (), w\<lparr>log_info := log_info w @ [skip_update_message]\<rparr>)
      else if truthy is_update \<and> \<not> py_contains (data w) ''control_number'' then
        (Inl (ValueError ''Control number is missing''), w)
      else send_record_to_hep env pid_type' (py_get (data w) ''control_number'') w)"

text \<open>\<^verbatim>\<open>store_record_inspirehep_api\<close> as decorated: only \<^verbatim>\<open>BadGatewayError\<close> is listed.\<close>

definition store_record_inspirehep_api ::
  "env \<Rightarrow> pyval \<Rightarrow> bool \<Rightarrow> world \<Rightarrow> (error + unit) \<times> world" where
  "store_record_inspirehep_api env is_update is_authors w =
     on_exception (expo 4 1) (\<lambda>e. e = BadGatewayError) 5
       (store_record_inspirehep_api_body env is_update is_authors) 0 w"

text \<open>
  \<^verbatim>\<open>store_record\<close>. Under the local strategy the block runs in a nested transaction;
  every exception of the model is raised before the first write to the record store, so
  the rollback leaves the store as it was, while the assignments already made to the
  workflow object stay. \<^verbatim>\<open>record.clear()\<close> followed by \<^verbatim>\<open>record.update(obj.data,
  ...)\<close> leaves the record with the content of \<^verbatim>\<open>obj.data\<close>; the download of documents
  and figures is outside the model.
\<close>

definition store_record :: "env \<Rightarrow> world \<Rightarrow> (error + unit) \<times> world" where
  "store_record env w =
     (let is_update = py_get (extra_data w) ''is-update'';
          is_authors = (data_type env = ''authors'')
      in if \<not> FEATURE_FLAG_ENABLE_REST_RECORD_MANAGEMENT env then
           (if truthy is_update then
              (if \<not> is_authors \<and> \<not> FEATURE_FLAG_ENABLE_MERGER env then
                 (Inr (), w\<lparr>log_info := log_info w @ [skip_update_message]\<rparr>)
               else
                 (case py_getitem (extra_data w) ''head_uuid'' of
                    Inl e \<Rightarrow> (Inl e, w)
                  | Inr head_uuid \<Rightarrow>
                 (case get_record (records w) head_uuid of
                    Inl e \<Rightarrow> (Inl e, w)
                  | Inr (u, record) \<Rightarrow>
                 (case py_getitem (content record) ''control_number'' of
                    Inl e \<Rightarrow> (Inl e, w)
                  | Inr cn \<Rightarrow>
                      (let w1 = w\<lparr>extra_data := py_setitem (extra_data w) ''recid'' cn\<rparr>;
                           w2 = w1\<lparr>data := py_setitem (data w1) ''control_number'' cn\<rparr>;
                           record' = record\<lparr>content := data w2\<rparr>
                       in (Inr (), obj_save (record_commit u record' w2)))))))
            else
              (case InspireRecord_create env (data w) of
                 (u, c) \<Rightarrow>
              (case py_getitem c ''control_number'' of
                 Inl e \<Rightarrow> (Inl e, w)
               | Inr cn \<Rightarrow>
                   (let w1 = w\<lparr>data := py_setitem (data w) ''control_number'' cn\<rparr>;
                        w2 = w1\<lparr>extra_data := py_setitem (extra_data w1) ''recid'' cn\<rparr>;
                        w3 = w2\<lparr>extra_data := py_setitem (extra_data w2) ''head_uuid'' (PStr u)\<rparr>
                    in (Inr (), obj_save (record_commit u \<lparr>content = c, version_id = 0\<rparr> w3))))))
         else store_record_inspirehep_api env is_update is_authors w)"

subsection \<open>The snapshot step\<close>

text \<open>
  Modelled from the spec: \<^verbatim>\<open>db.session.merge(row)\<close> on the table
  \<^verbatim>\<open>WorkflowsRecordSources\<close> is an upsert keyed by \<open>record_uuid\<close> and \<open>source\<close>:
  the row is inserted if the key is absent, and the JSON of the stored row is
  overwritten if it is present.
\<close>

definition same_key :: "WorkflowsRecordSources \<Rightarrow> WorkflowsRecordSources \<Rightarrow> bool" where
  "same_key a b = (record_uuid a = record_uuid b \<and> source a = source b)"

primrec session_merge :: "WorkflowsRecordSources \<Rightarrow> WorkflowsRecordSources list \<Rightarrow> WorkflowsRecordSources list" where
  "session_merge r [] = [r]"
| "session_merge r (x # xs) = (if same_key x r then x\<lparr>json := json r\<rparr> # xs else x # session_merge r xs)"

definition skip_root_message :: string where
  "skip_root_message =
     ''skipping storing source root, feature flag ``FEATURE_FLAG_ENABLE_MERGER`` is disabled.''"

definition store_root :: "env \<Rightarrow> world \<Rightarrow> (error + unit) \<times> world" where
  "store_root env w =
     (if \<not> FEATURE_FLAG_ENABLE_MERGER env then
        (Inr (), w\<lparr>log_info := log_info w @ [skip_root_message]\<rparr>)
      else
        (case py_getitem (extra_data w) ''merger_root'' of
           Inl e \<Rightarrow> (Inl e, w)
         | Inr root \<Rightarrow>
        (case py_getitem (extra_data w) ''head_uuid'' of
           Inl e \<Rightarrow> (Inl e, w)
         | Inr head_uuid \<Rightarrow>
             (let source' = lower (LiteratureReader_source env root) in
              if source' = [] then (Inr (), w)
              else
                (let root_record =
                       \<lparr>source = get_source_for_root env source', record_uuid = head_uuid, json = root\<rparr>
                 in (Inr (), w\<lparr>record_sources := session_merge root_record (record_sources w)\<rparr>))))))"

subsection \<open>The staleness check\<close>

text \<open>
  \<^verbatim>\<open>_is_stale_data\<close> (an Isabelle name cannot start with an underscore). The message for
  \<^verbatim>\<open>log.info\<close> is built with \<^verbatim>\<open>'... %d ... %d' % (head_version_id,
  record.revision_id)\<close> before the call, which raises \<^verbatim>\<open>TypeError\<close> when
  \<open>head_version_id\<close> is not a number.
\<close>

definition stale_message :: string where
  "stale_message = ''Working with stale data:''"

definition is_stale_data_impl :: "world \<Rightarrow> (error + bool) \<times> world" where
  "is_stale_data_impl w =
     (let is_update = py_get (extra_data w) ''is-update'';
          head_version_id = py_get (extra_data w) ''head_version_id''
      in if \<not> truthy is_update \<or> head_version_id = PNone then (Inr False, w)
         else
           (case get_record (records w) (py_get (extra_data w) ''head_uuid'') of
              Inl e \<Rightarrow> (Inl e, w)
            | Inr (u, record) \<Rightarrow>
                if py_int_ne (version_id record) head_version_id then
                  (if py_is_number head_version_id
                   then (Inr True, w\<lparr>log_info := log_info w @ [stale_message]\<rparr>)
                   else (Inl TypeError, w))
                else (Inr False, w)))"

text \<open>\<^verbatim>\<open>is_stale_data(obj, eng)\<close>.\<close>

definition is_stale_data :: "world \<Rightarrow> (error + bool) \<times> world" where
  "is_stale_data w = is_stale_data_impl w"

subsection \<open>Example configurations and states\<close>

text \<open>
  Concrete collaborators for the examples: a reader that takes the source from
  \<^verbatim>\<open>acquisition_source.source\<close> (empty when absent), a source mapping that keeps
  \<^verbatim>\<open>arxiv\<close> and \<^verbatim>\<open>submitter\<close> and sends every other source to \<^verbatim>\<open>publisher\<close>, and a
  record store that gives every created record the UUID \<^verbatim>\<open>u-9\<close> and the control
  number 9.
\<close>

definition example_reader :: "pyval \<Rightarrow> string" where
  "example_reader r =
     (case py_subscript r ''acquisition_source'' of
        Inl e \<Rightarrow> []
      | Inr a \<Rightarrow> (case py_subscript a ''source'' of Inr (PStr s) \<Rightarrow> s | _ \<Rightarrow> []))"

definition example_env :: "bool \<Rightarrow> bool \<Rightarrow> (nat \<Rightarrow> request \<Rightarrow> http_result) \<Rightarrow> env" where
  "example_env rest merger api =
     \<lparr>FEATURE_FLAG_ENABLE_REST_RECORD_MANAGEMENT = rest,
      FEATURE_FLAG_ENABLE_MERGER = merger,
      data_type = ''hep'',
      hep_api = api,
      InspireRecord_create = (\<lambda>d. (''u-9'', py_setitem d ''control_number'' (PInt 9))),
      get_source_for_root = (\<lambda>s. if s = ''arxiv'' \<or> s = ''submitter'' then s else ''publisher''),
      LiteratureReader_source = example_reader\<rparr>"

definition example_world :: "pydict \<Rightarrow> pydict \<Rightarrow> (string \<times> InspireRecord) list \<Rightarrow> world" where
  "example_world d x rs =
     \<lparr>data = d, extra_data = x, log_info = [], saved = None, records = rs,
      requests = [], sleeps = [], record_sources = []\<rparr>"

text \<open>A canonical record with control number 1234 at the given version.\<close>

definition example_record :: "int \<Rightarrow> InspireRecord" where
  "example_record n = \<lparr>content = [(''control_number'', PInt 1234)], version_id = n\<rparr>"

text \<open>An update workflow that observed version 3 of the record \<^verbatim>\<open>u-1\<close>.\<close>

definition update_extra_data :: pydict where
  "update_extra_data =
     [(''is-update'', PBool True), (''head_uuid'', PStr ''u-1''), (''head_version_id'', PInt 3)]"

text \<open>Answers of the remote service: a successful body, and errors by status code.\<close>

definition ok_body :: pyval where
  "ok_body = PDict [(''metadata'', PDict [(''control_number'', PInt 1234)]), (''uuid'', PStr ''u-1'')]"

definition http_error :: "int \<Rightarrow> http_result" where
  "http_error code = HTTPError (Response code None ''error'')"

text \<open>A remote service that gives the same answer to every request.\<close>

definition always_answer :: "http_result \<Rightarrow> nat \<Rightarrow> request \<Rightarrow> http_result" where
  "always_answer a n r = a"

text \<open>A replace call: the payload holds the control number 1234 and the workflow observed
  version 3, so the request carries the precondition for version 2.\<close>

definition replace_world :: world where
  "replace_world = example_world [(''control_number'', PInt 1234)] update_extra_data []"

definition replace_request :: request where
  "replace_request =
     \<lparr>http_method = PUT, pid_type = ''lit'', control_number = PInt 1234,
      payload = [(''control_number'', PInt 1234)],
      headers = [(''If-Match'', [CHR 0x22, CHR ''2'', CHR 0x22])]\<rparr>"

text \<open>The upstream step that supplies the record from which the snapshot is taken:
  \<^verbatim>\<open>obj.extra_data['merger_root'] = j\<close>.\<close>

definition set_merger_root :: "pyval \<Rightarrow> world \<Rightarrow> world" where
  "set_merger_root j w = w\<lparr>extra_data := py_setitem (extra_data w) ''merger_root'' j\<rparr>"

text \<open>A root record submitted by the source \<open>src\<close>.\<close>

definition snapshot_root :: "string \<Rightarrow> string \<Rightarrow> pyval" where
  "snapshot_root src title =
     PDict [(''acquisition_source'', PDict [(''source'', PStr src)]), (''title'', PStr title)]"

subsection \<open>The relation between the states around a storage operation\<close>

text \<open>
  What a storage operation may do to the pair of \<^verbatim>\<open>obj.data['control_number']\<close> and
  \<^verbatim>\<open>obj.extra_data['recid']\<close>: leave both as they were, or leave both assigned and
  equal.
\<close>

definition identity_step :: "world \<Rightarrow> world \<Rightarrow> bool" where
  "identity_step w w' =
     ((map_of (data w') ''control_number'' = map_of (data w) ''control_number''
        \<and> map_of (extra_data w') ''recid'' = map_of (extra_data w) ''recid'')
      \<or> (map_of (data w') ''control_number'' \<noteq> None
        \<and> map_of (data w') ''control_number'' = map_of (extra_data w') ''recid''))"

section \<open>Properties\<close>

subsection \<open>Auxiliary facts\<close>

lemma map_of_py_setitem: "map_of (py_setitem d k v) = (map_of d)(k \<mapsto> v)"
  by (induction d) (auto simp: fun_eq_iff)

lemma on_exception_returns:
  "target w = (Inr v, w') \<Longrightarrow> on_exception wg listed m target t w = (Inr v, w')"
  by (subst on_exception.simps) simp

lemma on_exception_gives_up:
  "target w = (Inl e, w') \<Longrightarrow> \<not> (listed e \<and> Suc t < m) \<Longrightarrow>
     on_exception wg listed m target t w = (Inl e, w')"
  by (subst on_exception.simps) auto

lemma on_exception_retries:
  "target w = (Inl e, w') \<Longrightarrow> listed e \<Longrightarrow> Suc t < m \<Longrightarrow>
     on_exception wg listed m target t w =
       on_exception wg listed m target (Suc t) (w'\<lparr>sleeps := sleeps w' @ [wg t]\<rparr>)"
  by (subst on_exception.simps) simp

lemma is_ascii_error: "is_ascii ''error''"
  by (simp add: is_ascii_def)

lemma create_error_http_error:
  "code \<noteq> 502 \<Longrightarrow> create_error (Response code None ''error'') = WorkflowsError code (PStr ''error'')"
  by (simp add: create_error_def is_ascii_error)

lemma create_error_bad_gateway:
  "(create_error resp = BadGatewayError) = (status_code resp = 502)"
  by (simp add: create_error_def Let_def)

lemma create_error_not_conflict: "create_error resp \<noteq> ConflictError"
  by (simp add: create_error_def Let_def)

lemma requests_stamp_response [simp]:
  "requests (snd (stamp_response cn resp w)) = requests w"
  by (simp add: stamp_response_def obj_save_def Let_def split: sum.splits)

lemma call_hep_requests [simp]:
  "requests (snd (call_hep env r w)) = requests w @ [r]"
  by (simp add: call_hep_def split: http_result.splits)

lemma requests_send_record_to_hep:
  "requests (snd (send_record_to_hep env pid cn w)) =
     (case build_request pid cn w of Inl e \<Rightarrow> requests w | Inr r \<Rightarrow> requests w @ [r])"
proof (cases "build_request pid cn w")
  case (Inl e)
  then show ?thesis by (simp add: send_record_to_hep_def)
next
  case (Inr r)
  obtain res w1 where c: "call_hep env r w = (res, w1)" by (cases "call_hep env r w")
  then have "requests w1 = requests w @ [r]"
    using call_hep_requests [of env r w] by simp
  with Inr c show ?thesis
    by (cases res) (simp_all add: send_record_to_hep_def)
qed

subsection \<open>The staleness check\<close>

text \<open>
  C3. The staleness check returns false, and leaves the state as it is, whenever the
  workflow is not an update or has no recorded head version. For an update whose
  recorded head version is the integer \<open>v\<close> and whose head UUID names a stored canonical
  record, it returns true exactly when the version of that record differs from \<open>v\<close>.
\<close>

theorem is_stale_data_result:
  "(\<not> truthy (py_get (extra_data w) ''is-update'') \<or> py_get (extra_data w) ''head_version_id'' = PNone
      \<longrightarrow> is_stale_data w = (Inr False, w))
   \<and> (truthy (py_get (extra_data w) ''is-update'')
        \<and> map_of (extra_data w) ''head_version_id'' = Some (PInt v)
        \<and> map_of (extra_data w) ''head_uuid'' = Some (PStr u)
        \<and> map_of (records w) u = Some r
      \<longrightarrow> fst (is_stale_data w) = Inr (version_id r \<noteq> v))"
  by (auto simp add: is_stale_data_def is_stale_data_impl_def py_get_def)

text \<open>The three cases of the specification: head version 3 against a record at version
  4, against a record at version 3, and a workflow that is not an update.\<close>

theorem is_stale_data_result_witness:
  "fst (is_stale_data (example_world [] update_extra_data [(''u-1'', example_record 4)])) = Inr True
   \<and> fst (is_stale_data (example_world [] update_extra_data [(''u-1'', example_record 3)])) = Inr False
   \<and> is_stale_data (example_world [] [(''is-update'', PBool False), (''head_version_id'', PInt 3)]
         [(''u-1'', example_record 4)])
       = (Inr False, example_world [] [(''is-update'', PBool False), (''head_version_id'', PInt 3)]
           [(''u-1'', example_record 4)])"
  using
    is_stale_data_result [of "example_world [] update_extra_data [(''u-1'', example_record 4)]"
      3 "''u-1''" "example_record 4"]
    is_stale_data_result [of "example_world [] update_extra_data [(''u-1'', example_record 3)]"
      3 "''u-1''" "example_record 3"]
    is_stale_data_result [of "example_world [] [(''is-update'', PBool False), (''head_version_id'', PInt 3)]
      [(''u-1'', example_record 4)]"]
  by (simp add: example_world_def update_extra_data_def example_record_def py_get_def)

subsection \<open>Updates when merging is disabled\<close>

text \<open>
  C7. For an update workflow that is not of the authors type, with the merger flag
  disabled, the commit step returns without raising under either storage strategy, and
  the state after it is the state before it with one more log message: the canonical
  records, the payload, the extra data and the requests issued are unchanged.
\<close>

theorem store_record_skips_update:
  assumes "truthy (py_get (extra_data w) ''is-update'')"
    and "data_type env \<noteq> ''authors''"
    and "\<not> FEATURE_FLAG_ENABLE_MERGER env"
  shows "store_record env w = (Inr (), w\<lparr>log_info := log_info w @ [skip_update_message]\<rparr>)"
proof (cases "FEATURE_FLAG_ENABLE_REST_RECORD_MANAGEMENT env")
  case False
  with assms show ?thesis by (simp add: store_record_def)
next
  case True
  have "store_record_inspirehep_api_body env (py_get (extra_data w) ''is-update'') False w =
          (Inr (), w\<lparr>log_info := log_info w @ [skip_update_message]\<rparr>)"
    using assms by (simp add: store_record_inspirehep_api_body_def)
  then show ?thesis
    using True assms
    by (simp add: store_record_def store_record_inspirehep_api_def on_exception_returns)
qed

theorem store_record_skips_update_witness:
  "truthy (py_get (extra_data (example_world [] update_extra_data [(''u-1'', example_record 3)])) ''is-update'')
   \<and> data_type (example_env False False (\<lambda>n r. Ok ok_body)) \<noteq> ''authors''
   \<and> \<not> FEATURE_FLAG_ENABLE_MERGER (example_env False False (\<lambda>n r. Ok ok_body))
   \<and> store_record (example_env False False (\<lambda>n r. Ok ok_body))
       (example_world [] update_extra_data [(''u-1'', example_record 3)])
     = (Inr (), (example_world [] update_extra_data [(''u-1'', example_record 3)])
                  \<lparr>log_info := [skip_update_message]\<rparr>)
   \<and> store_record (example_env True False (\<lambda>n r. Ok ok_body))
       (example_world [] update_extra_data [(''u-1'', example_record 3)])
     = (Inr (), (example_world [] update_extra_data [(''u-1'', example_record 3)])
                  \<lparr>log_info := [skip_update_message]\<rparr>)"
  using
    store_record_skips_update [of "example_world [] update_extra_data [(''u-1'', example_record 3)]"
      "example_env True False (\<lambda>n r. Ok ok_body)"]
    store_record_skips_update [of "example_world [] update_extra_data [(''u-1'', example_record 3)]"
      "example_env False False (\<lambda>n r. Ok ok_body)"]
  by (simp add: example_world_def example_env_def update_extra_data_def py_get_def)

subsection \<open>Updates without a control number\<close>

text \<open>
  C9. Under the remote strategy, for an update workflow that the merger gate does not
  skip (the type is authors, or the merger flag is enabled), a payload without the key
  \<^verbatim>\<open>control_number\<close> makes the commit step raise \<^verbatim>\<open>ValueError\<close>; the state is
  unchanged, so no request was issued and nothing was retried.
\<close>

theorem update_without_control_number:
  assumes "FEATURE_FLAG_ENABLE_REST_RECORD_MANAGEMENT env"
    and "truthy (py_get (extra_data w) ''is-update'')"
    and "data_type env = ''authors'' \<or> FEATURE_FLAG_ENABLE_MERGER env"
    and "\<not> py_contains (data w) ''control_number''"
  shows "store_record env w = (Inl (ValueError ''Control number is missing''), w)"
proof -
  have "store_record_inspirehep_api_body env (py_get (extra_data w) ''is-update'')
          (data_type env = ''authors'') w = (Inl (ValueError ''Control number is missing''), w)"
    using assms by (auto simp add: store_record_inspirehep_api_body_def)
  then show ?thesis
    using assms(1)
    by (simp add: store_record_def store_record_inspirehep_api_def on_exception_gives_up)
qed

theorem update_without_control_number_witness:
  "FEATURE_FLAG_ENABLE_REST_RECORD_MANAGEMENT (example_env True True (\<lambda>n r. Ok ok_body))
   \<and> truthy (py_get (extra_data (example_world [(''titles'', PList [])] update_extra_data [])) ''is-update'')
   \<and> FEATURE_FLAG_ENABLE_MERGER (example_env True True (\<lambda>n r. Ok ok_body))
   \<and> \<not> py_contains (data (example_world [(''titles'', PList [])] update_extra_data [])) ''control_number''
   \<and> store_record (example_env True True (\<lambda>n r. Ok ok_body))
       (example_world [(''titles'', PList [])] update_extra_data [])
     = (Inl (ValueError ''Control number is missing''),
        example_world [(''titles'', PList [])] update_extra_data [])
   \<and> requests (snd (store_record (example_env True True (\<lambda>n r. Ok ok_body))
       (example_world [(''titles'', PList [])] update_extra_data []))) = []"
  using
    update_without_control_number [of "example_env True True (\<lambda>n r. Ok ok_body)"
      "example_world [(''titles'', PList [])] update_extra_data []"]
  by (simp add: example_world_def example_env_def update_extra_data_def py_get_def py_contains_def)

subsection \<open>Replace calls that the remote service rejects\<close>

text \<open>
  C1, as the code has it. The module has no \<^verbatim>\<open>ConflictError\<close>: a rejected precondition
  (status 412) is translated like every other status that is not 502. The example is a
  replace call for the control number 1234 that the service answers with status 412:
  the exception raised is a \<^verbatim>\<open>WorkflowsError\<close> with the status code and the body.
\<close>

theorem rejected_replace_counterexample:
  "fst (send_record_to_hep (example_env True True (always_answer (http_error 412))) ''lit'' (PInt 1234)
         (example_world [(''control_number'', PInt 1234)] update_extra_data []))
     = Inl (WorkflowsError 412 (PStr ''error''))
   \<and> fst (send_record_to_hep (example_env True True (always_answer (http_error 412))) ''lit'' (PInt 1234)
         (example_world [(''control_number'', PInt 1234)] update_extra_data []))
     \<noteq> Inl ConflictError"
  by (simp add: send_record_to_hep_def build_request_def py_getitem_def if_match_headers_def
      call_hep_def create_error_http_error example_env_def example_world_def update_extra_data_def
      http_error_def always_answer_def)

text \<open>
  C1, amended. For every replace call (\<open>control_number\<close> truthy) that is issued and that
  the remote service answers with an HTTP error, \<^verbatim>\<open>send_record_to_hep\<close> raises the
  exception that \<open>create_error\<close> raises for the response, which is never a
  \<^verbatim>\<open>ConflictError\<close>: it is \<^verbatim>\<open>BadGatewayError\<close> for status 502, and for another status
  whose message (the decoded body, or the raw text when the body does not decode) is
  structured data or ASCII text it is a \<^verbatim>\<open>WorkflowsError\<close> with the status code and
  the message. In every case the state after the call is the state before it with the
  request recorded: the payload, with its \<^verbatim>\<open>control_number\<close>, and the extra data, with
  its \<^verbatim>\<open>recid\<close>, are unchanged.
\<close>

theorem rejected_replace_raises:
  assumes "truthy cn"
    and "build_request pid cn w = Inr r"
    and "hep_api env (length (requests w)) r = HTTPError resp"
  shows "send_record_to_hep env pid cn w = (Inl (create_error resp), w\<lparr>requests := requests w @ [r]\<rparr>)
     \<and> (status_code resp = 502 \<longrightarrow> create_error resp = BadGatewayError)
     \<and> (status_code resp \<noteq> 502
          \<and> format_accepts (case json_body resp of Some m \<Rightarrow> m | None \<Rightarrow> PStr (text_body resp))
        \<longrightarrow> create_error resp =
              WorkflowsError (status_code resp)
                (case json_body resp of Some m \<Rightarrow> m | None \<Rightarrow> PStr (text_body resp)))
     \<and> create_error resp \<noteq> ConflictError
     \<and> data (snd (send_record_to_hep env pid cn w)) = data w
     \<and> extra_data (snd (send_record_to_hep env pid cn w)) = extra_data w"
proof -
  have "send_record_to_hep env pid cn w = (Inl (create_error resp), w\<lparr>requests := requests w @ [r]\<rparr>)"
    using assms by (simp add: send_record_to_hep_def call_hep_def)
  then show ?thesis
    by (simp add: create_error_not_conflict) (simp add: create_error_def)
qed

theorem rejected_replace_raises_witness:
  "truthy (PInt 1234)
   \<and> build_request ''lit'' (PInt 1234) (example_world [(''control_number'', PInt 1234)] update_extra_data [])
       = Inr \<lparr>http_method = PUT, pid_type = ''lit'', control_number = PInt 1234,
              payload = [(''control_number'', PInt 1234)],
              headers = [(''If-Match'', [CHR 0x22, CHR ''2'', CHR 0x22])]\<rparr>
   \<and> send_record_to_hep (example_env True True (\<lambda>n r. http_error 412)) ''lit'' (PInt 1234)
         (example_world [(''control_number'', PInt 1234)] update_extra_data [])
       = (Inl (WorkflowsError 412 (PStr ''error'')),
          (example_world [(''control_number'', PInt 1234)] update_extra_data [])
            \<lparr>requests := [\<lparr>http_method = PUT, pid_type = ''lit'', control_number = PInt 1234,
                            payload = [(''control_number'', PInt 1234)],
                            headers = [(''If-Match'', [CHR 0x22, CHR ''2'', CHR 0x22])]\<rparr>]\<rparr>)"
proof -
  have b: "build_request ''lit'' (PInt 1234) (example_world [(''control_number'', PInt 1234)] update_extra_data [])
       = Inr \<lparr>http_method = PUT, pid_type = ''lit'', control_number = PInt 1234,
              payload = [(''control_number'', PInt 1234)],
              headers = [(''If-Match'', [CHR 0x22, CHR ''2'', CHR 0x22])]\<rparr>"
    by (simp add: build_request_def py_getitem_def if_match_headers_def example_world_def
        update_extra_data_def str_int_def str_nat.simps digit_char_def)
  have t: "truthy (PInt 1234)" by simp
  have a: "hep_api (example_env True True (\<lambda>n r. http_error 412))
             (length (requests (example_world [(''control_number'', PInt 1234)] update_extra_data [])))
             \<lparr>http_method = PUT, pid_type = ''lit'', control_number = PInt 1234,
              payload = [(''control_number'', PInt 1234)],
              headers = [(''If-Match'', [CHR 0x22, CHR ''2'', CHR 0x22])]\<rparr>
           = HTTPError (Response 412 None ''error'')"
    by (simp add: example_env_def http_error_def)
  show ?thesis
    using t b rejected_replace_raises [OF t b a]
    by (simp add: create_error_http_error example_world_def)
qed

text \<open>The path that the amended claim leaves out: a raw text with a character outside
  ASCII (here the two UTF-8 bytes of an accented letter) makes the formatting of the
  message raise \<^verbatim>\<open>UnicodeEncodeError\<close> in place of the \<^verbatim>\<open>WorkflowsError\<close>.\<close>

lemma create_error_non_ascii_text:
  "create_error (Response 412 None [CHR 0xC3, CHR 0xA9]) = UnicodeEncodeError"
  by (simp add: create_error_def is_ascii_def)

subsection \<open>The precondition header of a replace call\<close>

text \<open>
  C5, as the code has it. The header is built only when \<open>head_version_id\<close> is truthy:
  a replace call of a workflow whose \<open>head_version_id\<close> is \<^verbatim>\<open>None\<close> is issued with an
  empty header dictionary.
\<close>

theorem replace_if_match_counterexample:
  "requests (snd (send_record_to_hep (example_env True True (always_answer (Ok ok_body))) ''lit'' (PInt 1234)
         (example_world [(''control_number'', PInt 1234)] [(''head_version_id'', PNone)] [])))
     = [\<lparr>http_method = PUT, pid_type = ''lit'', control_number = PInt 1234,
         payload = [(''control_number'', PInt 1234)], headers = []\<rparr>]"
  by (simp add: requests_send_record_to_hep build_request_def py_getitem_def if_match_headers_def
      example_world_def)

text \<open>
  C5, amended. For every replace call of a workflow whose extra data hold
  \<open>head_version_id\<close>, exactly one request is issued, a PUT for the control number with
  the payload: when the value is a non-zero integer \<open>v\<close>, its only header is
  \<^verbatim>\<open>If-Match\<close> with the quoted decimal \<open>v - 1\<close>; when the value is \<^verbatim>\<open>None\<close> or 0, it
  has no header.
\<close>

theorem replace_if_match:
  assumes "truthy cn"
    and "map_of (extra_data w) ''head_version_id'' = Some h"
  shows "(h = PInt v \<and> v \<noteq> 0 \<longrightarrow>
            requests (snd (send_record_to_hep env pid cn w)) =
              requests w @ [\<lparr>http_method = PUT, pid_type = pid, control_number = cn,
                             payload = data w,
                             headers = [(''If-Match'', ''\"'' @ str_int (v - 1) @ ''\"'')]\<rparr>])
     \<and> (h = PNone \<or> h = PInt 0 \<longrightarrow>
            requests (snd (send_record_to_hep env pid cn w)) =
              requests w @ [\<lparr>http_method = PUT, pid_type = pid, control_number = cn,
                             payload = data w, headers = []\<rparr>])"
  using assms
  by (auto simp add: requests_send_record_to_hep build_request_def py_getitem_def if_match_headers_def)

theorem replace_if_match_witness:
  "truthy (PInt 1234)
   \<and> map_of (extra_data (example_world [(''control_number'', PInt 1234)] update_extra_data []))
       ''head_version_id'' = Some (PInt 3)
   \<and> (3::int) \<noteq> 0
   \<and> requests (snd (send_record_to_hep (example_env True True (\<lambda>n r. Ok ok_body)) ''lit'' (PInt 1234)
         (example_world [(''control_number'', PInt 1234)] update_extra_data [])))
     = [\<lparr>http_method = PUT, pid_type = ''lit'', control_number = PInt 1234,
         payload = [(''control_number'', PInt 1234)],
         headers = [(''If-Match'', [CHR 0x22, CHR ''2'', CHR 0x22])]\<rparr>]
   \<and> map_of (extra_data (example_world [(''control_number'', PInt 1234)] [(''head_version_id'', PNone)] []))
       ''head_version_id'' = Some PNone
   \<and> requests (snd (send_record_to_hep (example_env True True (\<lambda>n r. Ok ok_body)) ''lit'' (PInt 1234)
         (example_world [(''control_number'', PInt 1234)] [(''head_version_id'', PNone)] [])))
     = [\<lparr>http_method = PUT, pid_type = ''lit'', control_number = PInt 1234,
         payload = [(''control_number'', PInt 1234)], headers = []\<rparr>]"
  using
    replace_if_match [where cn = "PInt 1234"
      and w = "example_world [(''control_number'', PInt 1234)] update_extra_data []"
      and h = "PInt 3" and v = 3
      and env = "example_env True True (\<lambda>n r. Ok ok_body)" and pid = "''lit''"]
    replace_if_match [where cn = "PInt 1234"
      and w = "example_world [(''control_number'', PInt 1234)] [(''head_version_id'', PNone)] []"
      and h = PNone and v = 3
      and env = "example_env True True (\<lambda>n r. Ok ok_body)" and pid = "''lit''"]
  by (simp add: example_world_def update_extra_data_def str_int_def str_nat.simps digit_char_def)

text \<open>
  C10. For every replace call of a workflow whose extra data hold \<open>head_version_id\<close>
  with a falsy value (\<^verbatim>\<open>None\<close> or 0), exactly one request is issued, a PUT with an
  empty header dictionary; and whatever the value, a request issued by the call carries
  an \<^verbatim>\<open>If-Match\<close> header exactly when the value is truthy.
\<close>

theorem replace_without_precondition:
  assumes "truthy cn"
    and "map_of (extra_data w) ''head_version_id'' = Some h"
  shows "(\<not> truthy h \<longrightarrow>
            requests (snd (send_record_to_hep env pid cn w)) =
              requests w @ [\<lparr>http_method = PUT, pid_type = pid, control_number = cn,
                             payload = data w, headers = []\<rparr>])
     \<and> (\<forall>r \<in> set (drop (length (requests w)) (requests (snd (send_record_to_hep env pid cn w)))).
            (map_of (headers r) ''If-Match'' \<noteq> None) = truthy h)"
  using assms
  by (auto simp add: requests_send_record_to_hep build_request_def py_getitem_def if_match_headers_def
      split: sum.splits)

theorem replace_without_precondition_witness:
  "truthy (PInt 1234)
   \<and> map_of (extra_data (example_world [(''control_number'', PInt 1234)] [(''head_version_id'', PInt 0)] []))
       ''head_version_id'' = Some (PInt 0)
   \<and> \<not> truthy (PInt 0)
   \<and> requests (snd (send_record_to_hep (example_env True True (\<lambda>n r. Ok ok_body)) ''lit'' (PInt 1234)
         (example_world [(''control_number'', PInt 1234)] [(''head_version_id'', PInt 0)] [])))
     = [\<lparr>http_method = PUT, pid_type = ''lit'', control_number = PInt 1234,
         payload = [(''control_number'', PInt 1234)], headers = []\<rparr>]"
  using replace_without_precondition [of "PInt 1234"
      "example_world [(''control_number'', PInt 1234)] [(''head_version_id'', PInt 0)] []" "PInt 0"
      "example_env True True (\<lambda>n r. Ok ok_body)" "''lit''"]
  by (simp add: example_world_def)

text \<open>When the extra data have no key \<open>head_version_id\<close>, the subscript raises
  \<^verbatim>\<open>KeyError\<close> before the test, and no request is issued.\<close>

lemma replace_without_head_version_id:
  assumes "truthy cn"
    and "map_of (extra_data w) ''head_version_id'' = None"
  shows "send_record_to_hep env pid cn w = (Inl (KeyError ''head_version_id''), w)"
  using assms by (simp add: send_record_to_hep_def build_request_def py_getitem_def)

subsection \<open>Retries of the remote commit\<close>

lemma build_request_cong:
  "data w' = data w \<Longrightarrow> extra_data w' = extra_data w \<Longrightarrow>
     build_request p c w' = build_request p c w"
  by (simp add: build_request_def split: sum.splits)

lemma py_subscript_not_bad_gateway [simp]: "py_subscript v k \<noteq> Inl BadGatewayError"
  by (cases v) (simp_all add: py_getitem_def split: option.splits)

lemma stamp_response_not_bad_gateway:
  "fst (stamp_response c resp w) \<noteq> Inl BadGatewayError"
  by (auto simp add: stamp_response_def response_control_number_def Let_def split: sum.splits)

lemma body_sends:
  assumes "\<not> (truthy iu \<and> \<not> ia \<and> \<not> FEATURE_FLAG_ENABLE_MERGER env)"
    and "\<not> (truthy iu \<and> \<not> py_contains (data w) ''control_number'')"
    and "build_request (if ia then ''aut'' else ''lit'') (py_get (data w) ''control_number'') w = Inr r"
  shows "store_record_inspirehep_api_body env iu ia w =
     (case call_hep env r w of
        (Inl e, w1) \<Rightarrow> (Inl e, w1)
      | (Inr resp, w1) \<Rightarrow> stamp_response (py_get (data w) ''control_number'') resp w1)"
  using assms by (auto simp add: store_record_inspirehep_api_body_def send_record_to_hep_def)

lemma body_502:
  assumes "\<not> (truthy iu \<and> \<not> ia \<and> \<not> FEATURE_FLAG_ENABLE_MERGER env)"
    and "\<not> (truthy iu \<and> \<not> py_contains (data w) ''control_number'')"
    and "build_request (if ia then ''aut'' else ''lit'') (py_get (data w) ''control_number'') w = Inr r"
    and "is_502 (hep_api env (length (requests w)) r)"
  shows "store_record_inspirehep_api_body env iu ia w =
           (Inl BadGatewayError, w\<lparr>requests := requests w @ [r]\<rparr>)"
proof -
  obtain resp where "hep_api env (length (requests w)) r = HTTPError resp" "status_code resp = 502"
    using assms(4) by (cases "hep_api env (length (requests w)) r") auto
  then show ?thesis
    using body_sends [OF assms(1-3)] by (simp add: call_hep_def create_error_def)
qed

lemma body_not_502:
  assumes "\<not> (truthy iu \<and> \<not> ia \<and> \<not> FEATURE_FLAG_ENABLE_MERGER env)"
    and "\<not> (truthy iu \<and> \<not> py_contains (data w) ''control_number'')"
    and "build_request (if ia then ''aut'' else ''lit'') (py_get (data w) ''control_number'') w = Inr r"
    and "\<not> is_502 (hep_api env (length (requests w)) r)"
  shows "fst (store_record_inspirehep_api_body env iu ia w) \<noteq> Inl BadGatewayError"
proof (cases "hep_api env (length (requests w)) r")
  case (Ok b)
  then show ?thesis
    using body_sends [OF assms(1-3)] stamp_response_not_bad_gateway
    by (simp add: call_hep_def)
next
  case (HTTPError resp)
  then show ?thesis
    using body_sends [OF assms(1-3)] assms(4) by (simp add: call_hep_def create_error_bad_gateway)
qed

lemma requests_body:
  assumes "\<not> (truthy iu \<and> \<not> ia \<and> \<not> FEATURE_FLAG_ENABLE_MERGER env)"
    and "\<not> (truthy iu \<and> \<not> py_contains (data w) ''control_number'')"
    and "build_request (if ia then ''aut'' else ''lit'') (py_get (data w) ''control_number'') w = Inr r"
  shows "requests (snd (store_record_inspirehep_api_body env iu ia w)) = requests w @ [r]"
    and "sleeps (snd (store_record_inspirehep_api_body env iu ia w)) = sleeps w"
  using assms
  by (auto simp add: store_record_inspirehep_api_body_def requests_send_record_to_hep
      send_record_to_hep_def call_hep_def stamp_response_def obj_save_def Let_def
      split: sum.splits http_result.splits)

lemma retry_502s:
  assumes "\<not> (truthy iu \<and> \<not> ia \<and> \<not> FEATURE_FLAG_ENABLE_MERGER env)"
    and "\<not> (truthy iu \<and> \<not> py_contains (data w) ''control_number'')"
    and "build_request (if ia then ''aut'' else ''lit'') (py_get (data w) ''control_number'') w = Inr r"
    and "\<forall>i<k. is_502 (hep_api env (length (requests w) + i) r)"
    and "t + k < 5"
  shows "on_exception (expo 4 1) (\<lambda>e. e = BadGatewayError) 5
           (store_record_inspirehep_api_body env iu ia) t w =
         on_exception (expo 4 1) (\<lambda>e. e = BadGatewayError) 5
           (store_record_inspirehep_api_body env iu ia) (t + k)
           (w\<lparr>requests := requests w @ replicate k r,
              sleeps := sleeps w @ map (expo 4 1) [t..<t + k]\<rparr>)"
  using assms
proof (induction k arbitrary: t w)
  case 0
  then show ?case by simp
next
  case (Suc k)
  let ?w1 = "w\<lparr>requests := requests w @ [r], sleeps := sleeps w @ [expo 4 1 t]\<rparr>"
  have first: "is_502 (hep_api env (length (requests w)) r)"
    using Suc.prems(4) by (metis add.right_neutral zero_less_Suc)
  have b: "store_record_inspirehep_api_body env iu ia w =
             (Inl BadGatewayError, w\<lparr>requests := requests w @ [r]\<rparr>)"
    by (rule body_502 [OF Suc.prems(1-3) first])
  have step: "on_exception (expo 4 1) (\<lambda>e. e = BadGatewayError) 5
           (store_record_inspirehep_api_body env iu ia) t w =
         on_exception (expo 4 1) (\<lambda>e. e = BadGatewayError) 5
           (store_record_inspirehep_api_body env iu ia) (Suc t) ?w1"
    using on_exception_retries [where target = "store_record_inspirehep_api_body env iu ia"
        and w = w and e = BadGatewayError and w' = "w\<lparr>requests := requests w @ [r]\<rparr>"
        and listed = "\<lambda>e. e = BadGatewayError" and t = t and m = 5 and wg = "expo 4 1"]
      b Suc.prems(5)
    by simp
  have p2: "\<not> (truthy iu \<and> \<not> py_contains (data ?w1) ''control_number'')"
    using Suc.prems(2) by simp
  have p3: "build_request (if ia then ''aut'' else ''lit'') (py_get (data ?w1) ''control_number'') ?w1 = Inr r"
    using Suc.prems(3) build_request_cong [of ?w1 w] by simp
  have p4: "\<forall>i<k. is_502 (hep_api env (length (requests ?w1) + i) r)"
  proof (intro allI impI)
    fix i assume "i < k"
    then have "Suc i < Suc k" by simp
    with Suc.prems(4) have "is_502 (hep_api env (length (requests w) + Suc i) r)" by blast
    then show "is_502 (hep_api env (length (requests ?w1) + i) r)" by simp
  qed
  have p5: "Suc t + k < 5" using Suc.prems(5) by simp
  have ih: "on_exception (expo 4 1) (\<lambda>e. e = BadGatewayError) 5
           (store_record_inspirehep_api_body env iu ia) (Suc t) ?w1 =
         on_exception (expo 4 1) (\<lambda>e. e = BadGatewayError) 5
           (store_record_inspirehep_api_body env iu ia) (Suc t + k)
           (?w1\<lparr>requests := requests ?w1 @ replicate k r,
              sleeps := sleeps ?w1 @ map (expo 4 1) [Suc t..<Suc t + k]\<rparr>)"
    by (rule Suc.IH [OF Suc.prems(1) p2 p3 p4 p5])
  have u: "[t..<t + Suc k] = t # [Suc t..<Suc t + k]"
    using upt_conv_Cons [of t "t + Suc k"] by simp
  have eq: "?w1\<lparr>requests := requests ?w1 @ replicate k r,
              sleeps := sleeps ?w1 @ map (expo 4 1) [Suc t..<Suc t + k]\<rparr>
      = w\<lparr>requests := requests w @ replicate (Suc k) r,
              sleeps := sleeps w @ map (expo 4 1) [t..<t + Suc k]\<rparr>"
    unfolding u by simp
  note step
  also note ih
  also have "on_exception (expo 4 1) (\<lambda>e. e = BadGatewayError) 5
           (store_record_inspirehep_api_body env iu ia) (Suc t + k)
           (?w1\<lparr>requests := requests ?w1 @ replicate k r,
              sleeps := sleeps ?w1 @ map (expo 4 1) [Suc t..<Suc t + k]\<rparr>) =
         on_exception (expo 4 1) (\<lambda>e. e = BadGatewayError) 5
           (store_record_inspirehep_api_body env iu ia) (t + Suc k)
           (w\<lparr>requests := requests w @ replicate (Suc k) r,
              sleeps := sleeps w @ map (expo 4 1) [t..<t + Suc k]\<rparr>)"
    by (subst eq) simp
  finally show ?case .
qed

lemma on_exception_not_listed:
  "(\<And>e. fst (target w) = Inl e \<Longrightarrow> \<not> listed e) \<Longrightarrow>
     on_exception wg listed m target t w = target w"
  by (subst on_exception.simps) (auto split: prod.splits sum.splits)

lemma expo_4_waits: "map (expo 4 1) [0..<4] = [1, 4, 16, 64]"
  by (simp add: expo_def upt_rec)

lemma retries_of_a_sent_request:
  assumes "\<not> (truthy iu \<and> \<not> ia \<and> \<not> FEATURE_FLAG_ENABLE_MERGER env)"
    and "\<not> (truthy iu \<and> \<not> py_contains (data w) ''control_number'')"
    and "build_request (if ia then ''aut'' else ''lit'') (py_get (data w) ''control_number'') w = Inr r"
  shows "(fst (store_record_inspirehep_api_body env iu ia w) \<noteq> Inl BadGatewayError \<longrightarrow>
            store_record_inspirehep_api env iu ia w = store_record_inspirehep_api_body env iu ia w)
     \<and> (k < 5 \<and> (\<forall>i<k. is_502 (hep_api env (length (requests w) + i) r))
          \<and> \<not> is_502 (hep_api env (length (requests w) + k) r) \<longrightarrow>
            store_record_inspirehep_api env iu ia w =
              store_record_inspirehep_api_body env iu ia
                (w\<lparr>requests := requests w @ replicate k r,
                   sleeps := sleeps w @ map (\<lambda>i. 4 ^ i) [0..<k]\<rparr>)
            \<and> fst (store_record_inspirehep_api env iu ia w) \<noteq> Inl BadGatewayError
            \<and> requests (snd (store_record_inspirehep_api env iu ia w)) = requests w @ replicate (Suc k) r
            \<and> sleeps (snd (store_record_inspirehep_api env iu ia w)) = sleeps w @ map (\<lambda>i. 4 ^ i) [0..<k])
     \<and> ((\<forall>i<5. is_502 (hep_api env (length (requests w) + i) r)) \<longrightarrow>
            store_record_inspirehep_api env iu ia w =
              (Inl BadGatewayError,
               w\<lparr>requests := requests w @ replicate 5 r, sleeps := sleeps w @ [1, 4, 16, 64]\<rparr>))"
proof (intro conjI impI)
  assume "fst (store_record_inspirehep_api_body env iu ia w) \<noteq> Inl BadGatewayError"
  then show "store_record_inspirehep_api env iu ia w = store_record_inspirehep_api_body env iu ia w"
    unfolding store_record_inspirehep_api_def by (intro on_exception_not_listed) auto
next
  assume h: "k < 5 \<and> (\<forall>i<k. is_502 (hep_api env (length (requests w) + i) r))
          \<and> \<not> is_502 (hep_api env (length (requests w) + k) r)"
  let ?wk = "w\<lparr>requests := requests w @ replicate k r, sleeps := sleeps w @ map (expo 4 1) [0..<k]\<rparr>"
  have e: "expo 4 1 = (\<lambda>i. 4 ^ i)" by (simp add: expo_def fun_eq_iff)
  have q2: "\<not> (truthy iu \<and> \<not> py_contains (data ?wk) ''control_number'')"
    using assms(2) by simp
  have q3: "build_request (if ia then ''aut'' else ''lit'') (py_get (data ?wk) ''control_number'') ?wk = Inr r"
    using assms(3) build_request_cong [of ?wk w] by simp
  have q4: "\<not> is_502 (hep_api env (length (requests ?wk)) r)"
    using h by simp
  have nb: "fst (store_record_inspirehep_api_body env iu ia ?wk) \<noteq> Inl BadGatewayError"
    by (rule body_not_502 [OF assms(1) q2 q3 q4])
  have "store_record_inspirehep_api env iu ia w =
          on_exception (expo 4 1) (\<lambda>e. e = BadGatewayError) 5
            (store_record_inspirehep_api_body env iu ia) k ?wk"
    unfolding store_record_inspirehep_api_def
    using h retry_502s [OF assms, where k = k and t = 0] by simp
  also have "\<dots> = store_record_inspirehep_api_body env iu ia ?wk"
    by (rule on_exception_not_listed) (use nb in auto)
  finally have main: "store_record_inspirehep_api env iu ia w = store_record_inspirehep_api_body env iu ia ?wk" .
  show "store_record_inspirehep_api env iu ia w =
              store_record_inspirehep_api_body env iu ia
                (w\<lparr>requests := requests w @ replicate k r,
                   sleeps := sleeps w @ map (\<lambda>i. 4 ^ i) [0..<k]\<rparr>)"
    using main unfolding e .
  show "fst (store_record_inspirehep_api env iu ia w) \<noteq> Inl BadGatewayError"
    using main nb by simp
  show "requests (snd (store_record_inspirehep_api env iu ia w)) = requests w @ replicate (Suc k) r"
    using main requests_body(1) [OF assms(1) q2 q3] by (simp add: replicate_append_same)
  show "sleeps (snd (store_record_inspirehep_api env iu ia w)) = sleeps w @ map (\<lambda>i. 4 ^ i) [0..<k]"
    using main requests_body(2) [OF assms(1) q2 q3] by (simp add: expo_def)
next
  assume h: "\<forall>i<5. is_502 (hep_api env (length (requests w) + i) r)"
  let ?w4 = "w\<lparr>requests := requests w @ replicate 4 r, sleeps := sleeps w @ map (expo 4 1) [0..<4]\<rparr>"
  have q2: "\<not> (truthy iu \<and> \<not> py_contains (data ?w4) ''control_number'')"
    using assms(2) by simp
  have q3: "build_request (if ia then ''aut'' else ''lit'') (py_get (data ?w4) ''control_number'') ?w4 = Inr r"
    using assms(3) build_request_cong [of ?w4 w] by simp
  have q4: "is_502 (hep_api env (length (requests ?w4)) r)"
    using h by simp
  have b: "store_record_inspirehep_api_body env iu ia ?w4 =
             (Inl BadGatewayError, ?w4\<lparr>requests := requests ?w4 @ [r]\<rparr>)"
    by (rule body_502 [OF assms(1) q2 q3 q4])
  have "store_record_inspirehep_api env iu ia w =
          on_exception (expo 4 1) (\<lambda>e. e = BadGatewayError) 5
            (store_record_inspirehep_api_body env iu ia) 4 ?w4"
    unfolding store_record_inspirehep_api_def
    using h retry_502s [OF assms, where k = 4 and t = 0] by simp
  also have "\<dots> = (Inl BadGatewayError, ?w4\<lparr>requests := requests ?w4 @ [r]\<rparr>)"
    using b
      on_exception_gives_up [where target = "store_record_inspirehep_api_body env iu ia"
        and w = ?w4 and e = BadGatewayError and w' = "?w4\<lparr>requests := requests ?w4 @ [r]\<rparr>"
        and listed = "\<lambda>e. e = BadGatewayError" and t = 4 and m = 5 and wg = "expo 4 1"]
    by simp
  also have "?w4\<lparr>requests := requests ?w4 @ [r]\<rparr> =
      w\<lparr>requests := requests w @ replicate 5 r, sleeps := sleeps w @ [1, 4, 16, 64]\<rparr>"
    unfolding expo_4_waits by (simp add: numeral_eq_Suc replicate_append_same)
  finally show "store_record_inspirehep_api env iu ia w =
              (Inl BadGatewayError,
               w\<lparr>requests := requests w @ replicate 5 r, sleeps := sleeps w @ [1, 4, 16, 64]\<rparr>)" .
qed

text \<open>
  C2. For every invocation of the remote commit:
  \<^item> an attempt that does not raise \<^verbatim>\<open>BadGatewayError\<close> is the only one: its result, or
    its exception (a \<^verbatim>\<open>ValueError\<close>, an exception raised while the arguments of the
    call are built, the translation of a status other than 502, an exception raised
    after the answer), is the outcome of the decorated function, in the state that the
    single attempt leaves;
  \<^item> when the body reaches the remote call with request \<open>r\<close> (the update is not skipped,
    the control number of an update is present, and the arguments of the call are built
    without an exception), the first \<open>k < 5\<close> answers have status 502 and the next answer
    has not, the outcome is the one of attempt \<open>k + 1\<close>, never \<^verbatim>\<open>BadGatewayError\<close>,
    after exactly \<open>k + 1\<close> requests and the nominal delays \<open>4 ^ 0, \<dots>, 4 ^ (k - 1)\<close>;
  \<^item> when the body reaches the remote call with request \<open>r\<close> and the first five answers
    have status 502, \<^verbatim>\<open>BadGatewayError\<close> is raised after exactly five requests and the
    nominal delays 1, 4, 16, 64.
\<close>

theorem store_record_inspirehep_api_retries:
  "(fst (store_record_inspirehep_api_body env iu ia w) \<noteq> Inl BadGatewayError \<longrightarrow>
            store_record_inspirehep_api env iu ia w = store_record_inspirehep_api_body env iu ia w)
     \<and> (\<not> (truthy iu \<and> \<not> ia \<and> \<not> FEATURE_FLAG_ENABLE_MERGER env)
          \<and> \<not> (truthy iu \<and> \<not> py_contains (data w) ''control_number'')
          \<and> build_request (if ia then ''aut'' else ''lit'') (py_get (data w) ''control_number'') w = Inr r
          \<and> k < 5 \<and> (\<forall>i<k. is_502 (hep_api env (length (requests w) + i) r))
          \<and> \<not> is_502 (hep_api env (length (requests w) + k) r) \<longrightarrow>
            store_record_inspirehep_api env iu ia w =
              store_record_inspirehep_api_body env iu ia
                (w\<lparr>requests := requests w @ replicate k r,
                   sleeps := sleeps w @ map (\<lambda>i. 4 ^ i) [0..<k]\<rparr>)
            \<and> fst (store_record_inspirehep_api env iu ia w) \<noteq> Inl BadGatewayError
            \<and> requests (snd (store_record_inspirehep_api env iu ia w)) = requests w @ replicate (Suc k) r
            \<and> sleeps (snd (store_record_inspirehep_api env iu ia w)) = sleeps w @ map (\<lambda>i. 4 ^ i) [0..<k])
     \<and> (\<not> (truthy iu \<and> \<not> ia \<and> \<not> FEATURE_FLAG_ENABLE_MERGER env)
          \<and> \<not> (truthy iu \<and> \<not> py_contains (data w) ''control_number'')
          \<and> build_request (if ia then ''aut'' else ''lit'') (py_get (data w) ''control_number'') w = Inr r
          \<and> (\<forall>i<5. is_502 (hep_api env (length (requests w) + i) r)) \<longrightarrow>
            store_record_inspirehep_api env iu ia w =
              (Inl BadGatewayError,
               w\<lparr>requests := requests w @ replicate 5 r, sleeps := sleeps w @ [1, 4, 16, 64]\<rparr>))"
proof -
  have a: "fst (store_record_inspirehep_api_body env iu ia w) \<noteq> Inl BadGatewayError \<longrightarrow>
            store_record_inspirehep_api env iu ia w = store_record_inspirehep_api_body env iu ia w"
    unfolding store_record_inspirehep_api_def by (intro impI on_exception_not_listed) auto
  have b: "\<not> (truthy iu \<and> \<not> ia \<and> \<not> FEATURE_FLAG_ENABLE_MERGER env)
          \<and> \<not> (truthy iu \<and> \<not> py_contains (data w) ''control_number'')
          \<and> build_request (if ia then ''aut'' else ''lit'') (py_get (data w) ''control_number'') w = Inr r
          \<and> k < 5 \<and> (\<forall>i<k. is_502 (hep_api env (length (requests w) + i) r))
          \<and> \<not> is_502 (hep_api env (length (requests w) + k) r) \<longrightarrow>
            store_record_inspirehep_api env iu ia w =
              store_record_inspirehep_api_body env iu ia
                (w\<lparr>requests := requests w @ replicate k r,
                   sleeps := sleeps w @ map (\<lambda>i. 4 ^ i) [0..<k]\<rparr>)
            \<and> fst (store_record_inspirehep_api env iu ia w) \<noteq> Inl BadGatewayError
            \<and> requests (snd (store_record_inspirehep_api env iu ia w)) = requests w @ replicate (Suc k) r
            \<and> sleeps (snd (store_record_inspirehep_api env iu ia w)) = sleeps w @ map (\<lambda>i. 4 ^ i) [0..<k]"
    using retries_of_a_sent_request [of iu ia env w r k] by blast
  have c: "\<not> (truthy iu \<and> \<not> ia \<and> \<not> FEATURE_FLAG_ENABLE_MERGER env)
          \<and> \<not> (truthy iu \<and> \<not> py_contains (data w) ''control_number'')
          \<and> build_request (if ia then ''aut'' else ''lit'') (py_get (data w) ''control_number'') w = Inr r
          \<and> (\<forall>i<5. is_502 (hep_api env (length (requests w) + i) r)) \<longrightarrow>
            store_record_inspirehep_api env iu ia w =
              (Inl BadGatewayError,
               w\<lparr>requests := requests w @ replicate 5 r, sleeps := sleeps w @ [1, 4, 16, 64]\<rparr>)"
    using retries_of_a_sent_request [of iu ia env w r k] by blast
  show ?thesis by (intro conjI a b c)
qed

text \<open>The cases of the specification: two answers with status 502 and then a success
  (three requests, completes), status 502 throughout (five requests, raises), and
  status 500 (one request, raises at once).\<close>

lemma replace_request_built:
  "build_request (if False then ''aut'' else ''lit'') (py_get (data replace_world) ''control_number'')
     replace_world = Inr replace_request"
  by (simp add: build_request_def py_getitem_def py_get_def if_match_headers_def example_world_def
      replace_world_def replace_request_def update_extra_data_def str_int_def str_nat.simps
      digit_char_def)

theorem store_record_inspirehep_api_retries_witness:
  "fst (store_record_inspirehep_api
          (example_env True True (\<lambda>n r. if n < 2 then http_error 502 else Ok ok_body))
          (PBool True) False replace_world) = Inr ()
   \<and> requests (snd (store_record_inspirehep_api
          (example_env True True (\<lambda>n r. if n < 2 then http_error 502 else Ok ok_body))
          (PBool True) False replace_world)) = [replace_request, replace_request, replace_request]
   \<and> sleeps (snd (store_record_inspirehep_api
          (example_env True True (\<lambda>n r. if n < 2 then http_error 502 else Ok ok_body))
          (PBool True) False replace_world)) = [1, 4]
   \<and> store_record_inspirehep_api (example_env True True (\<lambda>n r. http_error 502))
          (PBool True) False replace_world
       = (Inl BadGatewayError,
          replace_world\<lparr>requests := [replace_request, replace_request, replace_request,
                                      replace_request, replace_request],
                         sleeps := [1, 4, 16, 64]\<rparr>)
   \<and> store_record_inspirehep_api (example_env True True (\<lambda>n r. http_error 500))
          (PBool True) False replace_world
       = (Inl (WorkflowsError 500 (PStr ''error'')), replace_world\<lparr>requests := [replace_request]\<rparr>)"
proof -
  have h1: "\<not> (truthy (PBool True) \<and> \<not> False \<and> \<not> FEATURE_FLAG_ENABLE_MERGER (example_env True True api))" for api
    by (simp add: example_env_def)
  have h2: "\<not> (truthy (PBool True) \<and> \<not> py_contains (data replace_world) ''control_number'')"
    by (simp add: replace_world_def example_world_def py_contains_def)
  note inst = store_record_inspirehep_api_retries [where iu = "PBool True" and ia = False
      and w = replace_world and r = replace_request]
  have req0: "requests replace_world = []" "sleeps replace_world = []"
    by (simp_all add: replace_world_def example_world_def)
  have r3: "replicate 3 replace_request = [replace_request, replace_request, replace_request]"
    by (simp add: numeral_eq_Suc)
  have r5: "replicate 5 replace_request =
      [replace_request, replace_request, replace_request, replace_request, replace_request]"
    by (simp add: numeral_eq_Suc)
  have s2: "map (\<lambda>i. 4 ^ i) [0..<2] = [1, 4 :: nat]"
    by (simp add: upt_rec)
  \<comment> \<open>two bad gateways, then success\<close>
  let ?A = "example_env True True (\<lambda>n r. if n < 2 then http_error 502 else Ok ok_body)"
  have pa: "2 < (5::nat) \<and> (\<forall>i<2. is_502 (hep_api ?A (length (requests replace_world) + i) replace_request))
          \<and> \<not> is_502 (hep_api ?A (length (requests replace_world) + 2) replace_request)"
    by (simp add: req0 example_env_def http_error_def)
  from inst [where env = ?A and k = 2] h1 [of "\<lambda>n r. if n < 2 then http_error 502 else Ok ok_body"] h2
    replace_request_built pa
  have a: "store_record_inspirehep_api ?A (PBool True) False replace_world =
              store_record_inspirehep_api_body ?A (PBool True) False
                (replace_world\<lparr>requests := requests replace_world @ replicate 2 replace_request,
                   sleeps := sleeps replace_world @ map (\<lambda>i. 4 ^ i) [0..<2]\<rparr>)"
    and a2: "requests (snd (store_record_inspirehep_api ?A (PBool True) False replace_world)) =
               requests replace_world @ replicate (Suc 2) replace_request"
    and a3: "sleeps (snd (store_record_inspirehep_api ?A (PBool True) False replace_world)) =
               sleeps replace_world @ map (\<lambda>i. 4 ^ i) [0..<2]"
    by blast+
  have a1: "fst (store_record_inspirehep_api ?A (PBool True) False replace_world) = Inr ()"
    unfolding a
    by (simp add: store_record_inspirehep_api_body_def send_record_to_hep_def call_hep_def
        stamp_response_def response_control_number_def py_getitem_def py_get_def py_contains_def
        build_request_def if_match_headers_def obj_save_def example_env_def ok_body_def
        replace_world_def example_world_def update_extra_data_def)
  \<comment> \<open>bad gateways only\<close>
  let ?B = "example_env True True (\<lambda>n r. http_error 502)"
  have pb: "\<forall>i<5. is_502 (hep_api ?B (length (requests replace_world) + i) replace_request)"
    by (simp add: example_env_def http_error_def)
  from inst [where env = ?B and k = 0] h1 [of "\<lambda>n r. http_error 502"] h2
    replace_request_built pb
  have b: "store_record_inspirehep_api ?B (PBool True) False replace_world =
              (Inl BadGatewayError,
               replace_world\<lparr>requests := requests replace_world @ replicate 5 replace_request,
                 sleeps := sleeps replace_world @ [1, 4, 16, 64]\<rparr>)"
    by blast
  \<comment> \<open>another error\<close>
  let ?C = "example_env True True (\<lambda>n r. http_error 500)"
  have bc: "store_record_inspirehep_api_body ?C (PBool True) False replace_world =
      (Inl (WorkflowsError 500 (PStr ''error'')), replace_world\<lparr>requests := [replace_request]\<rparr>)"
    using replace_request_built h2
    by (simp add: store_record_inspirehep_api_body_def send_record_to_hep_def call_hep_def
        create_error_http_error example_env_def http_error_def req0)
  from inst [where env = ?C and k = 0] bc
  have c: "store_record_inspirehep_api ?C (PBool True) False replace_world =
      (Inl (WorkflowsError 500 (PStr ''error'')), replace_world\<lparr>requests := [replace_request]\<rparr>)"
    by simp
  show ?thesis
    using a1 a2 a3 b c by (simp add: req0 r3 r5 s2)
qed


subsection \<open>Identity stamping\<close>

lemma map_of_put_row: "map_of (put_row rs u r) = (map_of rs)(u \<mapsto> r)"
  by (induction rs) (auto simp: fun_eq_iff)

lemma identity_step_refl [simp]: "identity_step w w"
  by (simp add: identity_step_def)

lemma identity_step_trans:
  "identity_step w w1 \<Longrightarrow> identity_step w1 w2 \<Longrightarrow> identity_step w w2"
  by (auto simp add: identity_step_def)

lemma identity_step_frame:
  "data w2 = data w1 \<Longrightarrow> extra_data w2 = extra_data w1 \<Longrightarrow> identity_step w w1 \<Longrightarrow> identity_step w w2"
  by (auto simp add: identity_step_def)

lemma identity_step_stamp_response: "identity_step w (snd (stamp_response c resp w))"
  by (auto simp add: stamp_response_def identity_step_def Let_def obj_save_def map_of_py_setitem
      split: sum.splits)

lemma identity_step_call_hep: "identity_step w (snd (call_hep env r w))"
  by (auto simp add: call_hep_def identity_step_def split: http_result.splits)

lemma identity_step_send_record_to_hep:
  "identity_step w (snd (send_record_to_hep env pid cn w))"
proof (cases "build_request pid cn w")
  case (Inl e)
  then show ?thesis by (simp add: send_record_to_hep_def)
next
  case (Inr r)
  obtain res w1 where c: "call_hep env r w = (res, w1)" by (cases "call_hep env r w")
  have s1: "identity_step w w1" using identity_step_call_hep [of w env r] c by simp
  show ?thesis
  proof (cases res)
    case (Inl e)
    with Inr c s1 show ?thesis by (simp add: send_record_to_hep_def)
  next
    case (Inr resp)
    with \<open>build_request pid cn w = Inr r\<close> c
    have "snd (send_record_to_hep env pid cn w) = snd (stamp_response cn resp w1)"
      by (simp add: send_record_to_hep_def)
    then show ?thesis
      using identity_step_trans [OF s1 identity_step_stamp_response [of w1 cn resp]] by simp
  qed
qed

lemma identity_step_body:
  "identity_step w (snd (store_record_inspirehep_api_body env iu ia w))"
  by (simp add: store_record_inspirehep_api_body_def identity_step_send_record_to_hep)
     (simp add: identity_step_def)

lemma identity_step_on_exception:
  assumes "\<And>w. identity_step w (snd (target w))"
  shows "identity_step w (snd (on_exception wg listed m target t w))"
  using assms
proof (induction wg listed m target t w rule: on_exception.induct)
  case (1 wg listed m target t w)
  obtain x w' where tw: "target w = (x, w')" by (cases "target w")
  have s1: "identity_step w w'" using "1.prems" [of w] tw by simp
  show ?case
  proof (cases x)
    case (Inr v)
    with tw s1 show ?thesis by (simp add: on_exception_returns)
  next
    case (Inl e)
    show ?thesis
    proof (cases "listed e \<and> Suc t < m")
      case True
      let ?w1 = "w'\<lparr>sleeps := sleeps w' @ [wg t]\<rparr>"
      have ih: "identity_step ?w1 (snd (on_exception wg listed m target (Suc t) ?w1))"
        using "1.IH" [of x w' e] tw Inl True "1.prems" by simp
      have s2: "identity_step w ?w1"
        by (rule identity_step_frame [OF _ _ s1]) simp_all
      have "on_exception wg listed m target t w = on_exception wg listed m target (Suc t) ?w1"
        using on_exception_retries [of target w e w' listed t m wg] tw Inl True by simp
      then show ?thesis
        using identity_step_trans [OF s2 ih] by simp
    next
      case False
      then have "on_exception wg listed m target t w = (Inl e, w')"
        using on_exception_gives_up [of target w e w' listed t m wg] tw Inl by simp
      with s1 show ?thesis by simp
    qed
  qed
qed

text \<open>
  C6. Whatever its outcome, a storage operation (\<^verbatim>\<open>store_record\<close> under either
  strategy, with its retries, and \<^verbatim>\<open>send_record_to_hep\<close>) either leaves the payload's
  \<^verbatim>\<open>control_number\<close> and the extra data's \<^verbatim>\<open>recid\<close> as they were or leaves both
  assigned to the same value; so if the two are equal before the operation they are
  equal after it.
\<close>

theorem recid_control_number_kept_equal:
  "identity_step w (snd (store_record env w))
   \<and> identity_step w (snd (send_record_to_hep env pid cn w))
   \<and> (map_of (data w) ''control_number'' = map_of (extra_data w) ''recid'' \<longrightarrow>
        map_of (data (snd (store_record env w))) ''control_number''
          = map_of (extra_data (snd (store_record env w))) ''recid''
        \<and> map_of (data (snd (send_record_to_hep env pid cn w))) ''control_number''
          = map_of (extra_data (snd (send_record_to_hep env pid cn w))) ''recid'')"
proof -
  have a: "identity_step w (snd (store_record env w))"
  proof (cases "FEATURE_FLAG_ENABLE_REST_RECORD_MANAGEMENT env")
    case True
    then show ?thesis
      using identity_step_on_exception [of "store_record_inspirehep_api_body env
          (py_get (extra_data w) ''is-update'') (data_type env = ''authors'')" w,
          OF identity_step_body]
      by (simp add: store_record_def store_record_inspirehep_api_def)
  next
    case False
    then show ?thesis
      by (auto simp add: store_record_def identity_step_def Let_def obj_save_def record_commit_def
          map_of_py_setitem split: sum.splits prod.splits)
  qed
  have b: "identity_step w (snd (send_record_to_hep env pid cn w))"
    by (rule identity_step_send_record_to_hep)
  from a b show ?thesis by (auto simp add: identity_step_def)
qed

theorem recid_control_number_kept_equal_witness:
  "map_of (data (example_world [(''titles'', PList [])] [] [])) ''control_number''
     = map_of (extra_data (example_world [(''titles'', PList [])] [] [])) ''recid''
   \<and> map_of (data (snd (store_record (example_env False True (\<lambda>n r. Ok ok_body))
         (example_world [(''titles'', PList [])] [] [])))) ''control_number'' = Some (PInt 9)
   \<and> map_of (extra_data (snd (store_record (example_env False True (\<lambda>n r. Ok ok_body))
         (example_world [(''titles'', PList [])] [] [])))) ''recid'' = Some (PInt 9)
   \<and> map_of (data (snd (send_record_to_hep (example_env False True (\<lambda>n r. Ok ok_body)) ''lit'' PNone
         (example_world [(''titles'', PList [])] [] [])))) ''control_number'' = Some (PInt 1234)
   \<and> map_of (extra_data (snd (send_record_to_hep (example_env False True (\<lambda>n r. Ok ok_body)) ''lit'' PNone
         (example_world [(''titles'', PList [])] [] [])))) ''recid'' = Some (PInt 1234)"
proof -
  have d: "map_of (data (snd (store_record (example_env False True (\<lambda>n r. Ok ok_body))
         (example_world [(''titles'', PList [])] [] [])))) ''control_number'' = Some (PInt 9)"
    by (simp add: store_record_def example_env_def example_world_def py_get_def py_getitem_def
        obj_save_def record_commit_def)
  have e: "map_of (data (snd (send_record_to_hep (example_env False True (\<lambda>n r. Ok ok_body)) ''lit'' PNone
         (example_world [(''titles'', PList [])] [] [])))) ''control_number'' = Some (PInt 1234)"
    by (simp add: send_record_to_hep_def build_request_def call_hep_def stamp_response_def
        response_control_number_def example_env_def example_world_def ok_body_def py_getitem_def
        obj_save_def)
  have p: "map_of (data (example_world [(''titles'', PList [])] [] [])) ''control_number''
     = map_of (extra_data (example_world [(''titles'', PList [])] [] [])) ''recid''"
    by (simp add: example_world_def)
  note inst = recid_control_number_kept_equal [where w = "example_world [(''titles'', PList [])] [] []"
      and env = "example_env False True (\<lambda>n r. Ok ok_body)" and pid = "''lit''" and cn = PNone]
  from inst p d
  have d': "map_of (extra_data (snd (store_record (example_env False True (\<lambda>n r. Ok ok_body))
         (example_world [(''titles'', PList [])] [] [])))) ''recid'' = Some (PInt 9)"
    by simp
  from inst p e
  have e': "map_of (extra_data (snd (send_record_to_hep (example_env False True (\<lambda>n r. Ok ok_body)) ''lit'' PNone
         (example_world [(''titles'', PList [])] [] [])))) ''recid'' = Some (PInt 1234)"
    by simp
  from p d d' e e' show ?thesis by simp
qed

text \<open>
  C4. Let the payload have no \<^verbatim>\<open>control_number\<close> and the workflow not be an update.
  Under the local strategy, when the record store creates the record with UUID \<open>u\<close> and
  a content that holds the control number \<open>cn\<close>, the commit step returns, the payload's
  \<^verbatim>\<open>control_number\<close> and the extra data's \<^verbatim>\<open>recid\<close> are \<open>cn\<close>, \<^verbatim>\<open>head_uuid\<close> is
  \<open>u\<close>, and the record is stored under \<open>u\<close>. Under the remote strategy, when the create
  request is answered (after fewer than five answers with status 502) by a body with
  \<^verbatim>\<open>metadata.control_number\<close> \<open>cn\<close> and \<^verbatim>\<open>uuid\<close> \<open>uu\<close>, the commit step returns, the
  payload's \<^verbatim>\<open>control_number\<close> and the extra data's \<^verbatim>\<open>recid\<close> are \<open>cn\<close>, and
  \<^verbatim>\<open>head_uuid\<close> is \<open>uu\<close>.
\<close>

theorem create_stamps_identity:
  assumes "\<not> py_contains (data w) ''control_number''"
    and "\<not> truthy (py_get (extra_data w) ''is-update'')"
  shows "(\<not> FEATURE_FLAG_ENABLE_REST_RECORD_MANAGEMENT env
          \<and> InspireRecord_create env (data w) = (u, c)
          \<and> map_of c ''control_number'' = Some cn
        \<longrightarrow> fst (store_record env w) = Inr ()
          \<and> map_of (data (snd (store_record env w))) ''control_number'' = Some cn
          \<and> map_of (extra_data (snd (store_record env w))) ''recid'' = Some cn
          \<and> map_of (extra_data (snd (store_record env w))) ''head_uuid'' = Some (PStr u)
          \<and> map_of (records (snd (store_record env w))) u = Some \<lparr>content = c, version_id = 1\<rparr>)
     \<and> (FEATURE_FLAG_ENABLE_REST_RECORD_MANAGEMENT env
          \<and> r = \<lparr>http_method = POST,
                  pid_type = (if data_type env = ''authors'' then ''aut'' else ''lit''),
                  control_number = PNone, payload = data w, headers = []\<rparr>
          \<and> k < 5
          \<and> (\<forall>i<k. is_502 (hep_api env (length (requests w) + i) r))
          \<and> hep_api env (length (requests w) + k) r = Ok resp
          \<and> response_control_number resp = Inr cn
          \<and> py_subscript resp ''uuid'' = Inr uu
        \<longrightarrow> fst (store_record env w) = Inr ()
          \<and> map_of (data (snd (store_record env w))) ''control_number'' = Some cn
          \<and> map_of (extra_data (snd (store_record env w))) ''recid'' = Some cn
          \<and> map_of (extra_data (snd (store_record env w))) ''head_uuid'' = Some uu)"
proof (rule conjI; rule impI)
  assume a: "\<not> FEATURE_FLAG_ENABLE_REST_RECORD_MANAGEMENT env
          \<and> InspireRecord_create env (data w) = (u, c)
          \<and> map_of c ''control_number'' = Some cn"
  with assms(2) have "store_record env w =
      (Inr (), obj_save (record_commit u \<lparr>content = c, version_id = 0\<rparr>
         (w\<lparr>data := py_setitem (data w) ''control_number'' cn,
            extra_data := py_setitem (py_setitem (extra_data w) ''recid'' cn) ''head_uuid'' (PStr u)\<rparr>)))"
    by (simp add: store_record_def py_getitem_def)
  then show "fst (store_record env w) = Inr ()
          \<and> map_of (data (snd (store_record env w))) ''control_number'' = Some cn
          \<and> map_of (extra_data (snd (store_record env w))) ''recid'' = Some cn
          \<and> map_of (extra_data (snd (store_record env w))) ''head_uuid'' = Some (PStr u)
          \<and> map_of (records (snd (store_record env w))) u = Some \<lparr>content = c, version_id = 1\<rparr>"
    by (simp add: obj_save_def record_commit_def map_of_py_setitem map_of_put_row)
next
  assume b: "FEATURE_FLAG_ENABLE_REST_RECORD_MANAGEMENT env
          \<and> r = \<lparr>http_method = POST,
                  pid_type = (if data_type env = ''authors'' then ''aut'' else ''lit''),
                  control_number = PNone, payload = data w, headers = []\<rparr>
          \<and> k < 5
          \<and> (\<forall>i<k. is_502 (hep_api env (length (requests w) + i) r))
          \<and> hep_api env (length (requests w) + k) r = Ok resp
          \<and> response_control_number resp = Inr cn
          \<and> py_subscript resp ''uuid'' = Inr uu"
  from b have br: "r = \<lparr>http_method = POST,
                  pid_type = (if data_type env = ''authors'' then ''aut'' else ''lit''),
                  control_number = PNone, payload = data w, headers = []\<rparr>"
    and rest: "FEATURE_FLAG_ENABLE_REST_RECORD_MANAGEMENT env"
    and bk: "k < 5"
    and b502: "\<forall>i<k. is_502 (hep_api env (length (requests w) + i) r)"
    and bans: "hep_api env (length (requests w) + k) r = Ok resp"
    and bcn: "response_control_number resp = Inr cn"
    and buu: "py_subscript resp ''uuid'' = Inr uu"
    by blast+
  let ?iu = "py_get (extra_data w) ''is-update''"
  let ?ia = "data_type env = ''authors''"
  let ?wk = "w\<lparr>requests := requests w @ replicate k r, sleeps := sleeps w @ map (expo 4 1) [0..<k]\<rparr>"
  have none: "py_get (data w) ''control_number'' = PNone"
    using assms(1) by (simp add: py_get_def py_contains_def)
  have h1: "\<not> (truthy ?iu \<and> \<not> ?ia \<and> \<not> FEATURE_FLAG_ENABLE_MERGER env)"
    using assms(2) by simp
  have h2: "\<not> (truthy ?iu \<and> \<not> py_contains (data w) ''control_number'')"
    using assms(2) by simp
  have h3: "build_request (if ?ia then ''aut'' else ''lit'') (py_get (data w) ''control_number'') w = Inr r"
    using br by (simp add: none build_request_def)
  have q2: "\<not> (truthy ?iu \<and> \<not> py_contains (data ?wk) ''control_number'')"
    using assms(2) by simp
  have q3: "build_request (if ?ia then ''aut'' else ''lit'') (py_get (data ?wk) ''control_number'') ?wk = Inr r"
    using h3 build_request_cong [of ?wk w] by simp
  have ans: "hep_api env (length (requests ?wk)) r = Ok resp"
    using bans by simp
  have body: "store_record_inspirehep_api_body env ?iu ?ia ?wk =
      (Inr (), obj_save (?wk\<lparr>requests := requests ?wk @ [r],
         data := py_setitem (data w) ''control_number'' cn,
         extra_data := py_setitem (py_setitem (extra_data w) ''recid'' cn) ''head_uuid'' uu\<rparr>))"
    using body_sends [OF h1 q2 q3] ans bcn buu
    by (simp add: call_hep_def stamp_response_def none)
  have "store_record env w =
          on_exception (expo 4 1) (\<lambda>e. e = BadGatewayError) 5
            (store_record_inspirehep_api_body env ?iu ?ia) k ?wk"
    using rest bk b502 retry_502s [OF h1 h2 h3, where k = k and t = 0]
    by (simp add: store_record_def store_record_inspirehep_api_def)
  also have "\<dots> = store_record_inspirehep_api_body env ?iu ?ia ?wk"
    by (rule on_exception_not_listed) (simp only: body fst_conv, simp)
  finally have "store_record env w = (Inr (), obj_save (?wk\<lparr>requests := requests ?wk @ [r],
         data := py_setitem (data w) ''control_number'' cn,
         extra_data := py_setitem (py_setitem (extra_data w) ''recid'' cn) ''head_uuid'' uu\<rparr>))"
    using body by simp
  then show "fst (store_record env w) = Inr ()
          \<and> map_of (data (snd (store_record env w))) ''control_number'' = Some cn
          \<and> map_of (extra_data (snd (store_record env w))) ''recid'' = Some cn
          \<and> map_of (extra_data (snd (store_record env w))) ''head_uuid'' = Some uu"
    by (simp add: obj_save_def map_of_py_setitem)
qed

theorem create_stamps_identity_witness:
  "fst (store_record (example_env False True (\<lambda>n r. Ok ok_body))
          (example_world [(''titles'', PList [])] [] [])) = Inr ()
   \<and> map_of (data (snd (store_record (example_env False True (\<lambda>n r. Ok ok_body))
          (example_world [(''titles'', PList [])] [] [])))) ''control_number'' = Some (PInt 9)
   \<and> map_of (extra_data (snd (store_record (example_env False True (\<lambda>n r. Ok ok_body))
          (example_world [(''titles'', PList [])] [] [])))) ''recid'' = Some (PInt 9)
   \<and> map_of (extra_data (snd (store_record (example_env False True (\<lambda>n r. Ok ok_body))
          (example_world [(''titles'', PList [])] [] [])))) ''head_uuid'' = Some (PStr ''u-9'')
   \<and> fst (store_record (example_env True True (\<lambda>n r. if n < 2 then http_error 502 else Ok ok_body))
          (example_world [(''titles'', PList [])] [] [])) = Inr ()
   \<and> map_of (data (snd (store_record
          (example_env True True (\<lambda>n r. if n < 2 then http_error 502 else Ok ok_body))
          (example_world [(''titles'', PList [])] [] [])))) ''control_number'' = Some (PInt 1234)
   \<and> map_of (extra_data (snd (store_record
          (example_env True True (\<lambda>n r. if n < 2 then http_error 502 else Ok ok_body))
          (example_world [(''titles'', PList [])] [] [])))) ''recid'' = Some (PInt 1234)
   \<and> map_of (extra_data (snd (store_record
          (example_env True True (\<lambda>n r. if n < 2 then http_error 502 else Ok ok_body))
          (example_world [(''titles'', PList [])] [] [])))) ''head_uuid'' = Some (PStr ''u-1'')"
proof -
  let ?W = "example_world [(''titles'', PList [])] [] []"
  let ?A = "example_env False True (\<lambda>n r. Ok ok_body)"
  let ?B = "example_env True True (\<lambda>n r. if n < 2 then http_error 502 else Ok ok_body)"
  let ?r = "\<lparr>http_method = POST, pid_type = ''lit'', control_number = PNone,
             payload = [(''titles'', PList [])], headers = []\<rparr>"
  have h1: "\<not> py_contains (data ?W) ''control_number''"
    by (simp add: example_world_def py_contains_def)
  have h2: "\<not> truthy (py_get (extra_data ?W) ''is-update'')"
    by (simp add: example_world_def py_get_def)
  have pa: "\<not> FEATURE_FLAG_ENABLE_REST_RECORD_MANAGEMENT ?A
          \<and> InspireRecord_create ?A (data ?W) = (''u-9'', [(''titles'', PList []), (''control_number'', PInt 9)])
          \<and> map_of [(''titles'', PList []), (''control_number'', PInt 9)] ''control_number'' = Some (PInt 9)"
    by (simp add: example_env_def example_world_def)
  have pb: "FEATURE_FLAG_ENABLE_REST_RECORD_MANAGEMENT ?B
          \<and> ?r = \<lparr>http_method = POST,
                  pid_type = (if data_type ?B = ''authors'' then ''aut'' else ''lit''),
                  control_number = PNone, payload = data ?W, headers = []\<rparr>
          \<and> 2 < (5::nat)
          \<and> (\<forall>i<2. is_502 (hep_api ?B (length (requests ?W) + i) ?r))
          \<and> hep_api ?B (length (requests ?W) + 2) ?r = Ok ok_body
          \<and> response_control_number ok_body = Inr (PInt 1234)
          \<and> py_subscript ok_body ''uuid'' = Inr (PStr ''u-1'')"
    by (simp add: example_env_def example_world_def http_error_def ok_body_def
        response_control_number_def py_getitem_def)
  from create_stamps_identity [OF h1 h2, where env = ?A and u = "''u-9''"
      and c = "[(''titles'', PList []), (''control_number'', PInt 9)]" and cn = "PInt 9"] pa
  have a: "fst (store_record ?A ?W) = Inr ()
          \<and> map_of (data (snd (store_record ?A ?W))) ''control_number'' = Some (PInt 9)
          \<and> map_of (extra_data (snd (store_record ?A ?W))) ''recid'' = Some (PInt 9)
          \<and> map_of (extra_data (snd (store_record ?A ?W))) ''head_uuid'' = Some (PStr ''u-9'')"
    by blast
  from create_stamps_identity [OF h1 h2, where env = ?B and r = ?r and k = 2 and resp = ok_body
      and cn = "PInt 1234" and uu = "PStr ''u-1''"] pb
  have b: "fst (store_record ?B ?W) = Inr ()
          \<and> map_of (data (snd (store_record ?B ?W))) ''control_number'' = Some (PInt 1234)
          \<and> map_of (extra_data (snd (store_record ?B ?W))) ''recid'' = Some (PInt 1234)
          \<and> map_of (extra_data (snd (store_record ?B ?W))) ''head_uuid'' = Some (PStr ''u-1'')"
    by blast
  from a b show ?thesis by blast
qed


subsection \<open>Snapshots\<close>

lemma session_merge_filter:
  "length (filter (\<lambda>x. same_key x r) xs) \<le> 1 \<Longrightarrow>
     filter (\<lambda>x. same_key x r) (session_merge r xs) = [r]"
proof (induction xs)
  case Nil
  then show ?case by (simp add: same_key_def)
next
  case (Cons x xs)
  show ?case
  proof (cases "same_key x r")
    case True
    with Cons.prems have "filter (\<lambda>x. same_key x r) xs = []" by simp
    moreover have "x\<lparr>json := json r\<rparr> = r" using True by (simp add: same_key_def)
    ultimately show ?thesis using True by (simp add: same_key_def)
  next
    case False
    with Cons show ?thesis by simp
  qed
qed

lemma store_root_merges:
  assumes "FEATURE_FLAG_ENABLE_MERGER env"
    and "map_of (extra_data w) ''head_uuid'' = Some u"
    and "lower (LiteratureReader_source env j) \<noteq> []"
  shows "store_root env (set_merger_root j w) =
     (Inr (), (set_merger_root j w)\<lparr>record_sources :=
        session_merge \<lparr>source = get_source_for_root env (lower (LiteratureReader_source env j)),
                       record_uuid = u, json = j\<rparr> (record_sources w)\<rparr>)"
  using assms
  by (simp add: store_root_def set_merger_root_def py_getitem_def map_of_py_setitem Let_def)

text \<open>
  C8. With the merger flag enabled, let the snapshot step run for the root \<open>j1\<close> and then
  for the root \<open>j2\<close>, both for the canonical record \<open>u\<close> and both with a non-empty source
  that \<open>get_source_for_root\<close> maps to the label \<open>s\<close>. If the table held at most one row
  for the key \<open>(u, s)\<close> before, then both steps return and the table holds exactly one
  row for that key afterwards, with the JSON \<open>j2\<close>.
\<close>

theorem store_root_twice:
  assumes "FEATURE_FLAG_ENABLE_MERGER env"
    and "map_of (extra_data w) ''head_uuid'' = Some u"
    and "lower (LiteratureReader_source env j1) \<noteq> []"
    and "lower (LiteratureReader_source env j2) \<noteq> []"
    and "get_source_for_root env (lower (LiteratureReader_source env j1)) = s"
    and "get_source_for_root env (lower (LiteratureReader_source env j2)) = s"
    and "length (filter (\<lambda>x. record_uuid x = u \<and> source x = s) (record_sources w)) \<le> 1"
  shows "fst (store_root env (set_merger_root j1 w)) = Inr ()
     \<and> fst (store_root env (set_merger_root j2 (snd (store_root env (set_merger_root j1 w))))) = Inr ()
     \<and> filter (\<lambda>x. record_uuid x = u \<and> source x = s)
         (record_sources (snd (store_root env
            (set_merger_root j2 (snd (store_root env (set_merger_root j1 w)))))))
       = [\<lparr>source = s, record_uuid = u, json = j2\<rparr>]"
proof -
  let ?r1 = "\<lparr>source = s, record_uuid = u, json = j1\<rparr>"
  let ?r2 = "\<lparr>source = s, record_uuid = u, json = j2\<rparr>"
  let ?w1 = "(set_merger_root j1 w)\<lparr>record_sources := session_merge ?r1 (record_sources w)\<rparr>"
  have k: "(\<lambda>x. record_uuid x = u \<and> source x = s) = (\<lambda>x. same_key x ?r1)"
          "(\<lambda>x. record_uuid x = u \<and> source x = s) = (\<lambda>x. same_key x ?r2)"
    by (simp_all add: same_key_def fun_eq_iff)
  have first: "store_root env (set_merger_root j1 w) = (Inr (), ?w1)"
    using store_root_merges [OF assms(1,2,3)] assms(5) by simp
  have one: "filter (\<lambda>x. same_key x ?r1) (record_sources ?w1) = [?r1]"
    using session_merge_filter [of ?r1 "record_sources w"] assms(7) by (simp add: k(1))
  have u1: "map_of (extra_data ?w1) ''head_uuid'' = Some u"
    using assms(2) by (simp add: set_merger_root_def map_of_py_setitem)
  have second: "store_root env (set_merger_root j2 ?w1) =
      (Inr (), (set_merger_root j2 ?w1)\<lparr>record_sources := session_merge ?r2 (record_sources ?w1)\<rparr>)"
    using store_root_merges [OF assms(1) u1 assms(4)] assms(6) by simp
  have le: "length (filter (\<lambda>x. same_key x ?r2) (record_sources ?w1)) \<le> 1"
    using one by (simp add: k(1) [symmetric] k(2) [symmetric])
  have two: "filter (\<lambda>x. same_key x ?r2) (session_merge ?r2 (record_sources ?w1)) = [?r2]"
    by (rule session_merge_filter [OF le])
  show ?thesis
    using first second two by (simp add: k(2))
qed

lemma lower_example: "lower ''Elsevier'' = ''elsevier''"
  by code_simp

theorem store_root_twice_witness:
  "filter (\<lambda>x. record_uuid x = PStr ''u-1'' \<and> source x = ''publisher'')
     (record_sources (snd (store_root (example_env True True (\<lambda>n r. Ok ok_body))
        (set_merger_root (snapshot_root ''Elsevier'' ''second'')
           (snd (store_root (example_env True True (\<lambda>n r. Ok ok_body))
              (set_merger_root (snapshot_root ''Elsevier'' ''first'')
                 (example_world [] [(''head_uuid'', PStr ''u-1'')] []))))))))
   = [\<lparr>source = ''publisher'', record_uuid = PStr ''u-1'',
       json = snapshot_root ''Elsevier'' ''second''\<rparr>]"
proof -
  let ?E = "example_env True True (\<lambda>n r. Ok ok_body)"
  let ?W = "example_world [] [(''head_uuid'', PStr ''u-1'')] []"
  have src: "LiteratureReader_source ?E (snapshot_root ''Elsevier'' t) = ''Elsevier''" for t
    by (simp add: example_env_def example_reader_def snapshot_root_def py_getitem_def)
  have h1: "FEATURE_FLAG_ENABLE_MERGER ?E" by (simp add: example_env_def)
  have h2: "map_of (extra_data ?W) ''head_uuid'' = Some (PStr ''u-1'')"
    by (simp add: example_world_def)
  have h3: "lower (LiteratureReader_source ?E (snapshot_root ''Elsevier'' t)) \<noteq> []" for t
    by (simp add: src lower_example)
  have h5: "get_source_for_root ?E (lower (LiteratureReader_source ?E (snapshot_root ''Elsevier'' t)))
      = ''publisher''" for t
    by (simp add: src lower_example) (simp add: example_env_def)
  have h7: "length (filter (\<lambda>x. record_uuid x = PStr ''u-1'' \<and> source x = ''publisher'')
      (record_sources ?W)) \<le> 1"
    by (simp add: example_world_def)
  from store_root_twice [OF h1 h2 h3 h3 h5 h5 h7, of "''first''" "''second''"]
  show ?thesis by simp
qed


end
